theory Spec2Isabelle
  imports Complex_Main
begin

section \<open>Python values and exceptions\<close>

text \<open>
  The program is \<^verbatim>\<open>src/src/extract_data.py\<close>. Its exceptions are values of
  \<open>error\<close>; a function that can raise returns \<open>error + 'a\<close> with \<open>Inl\<close> for the raise.
  \<open>RequestException\<close> stands for every exception of the class
  \<^verbatim>\<open>requests.RequestException\<close> (connection failure, timeout, the
  \<^verbatim>\<open>HTTPError\<close> of \<^verbatim>\<open>raise_for_status\<close>); \<open>JSONDecodeError\<close> is the
  exception of \<^verbatim>\<open>r.json()\<close>; \<open>OperationalError\<close> and \<open>BindingError\<close> are
  raised by \<^verbatim>\<open>sqlite3\<close>.
\<close>

datatype error =
    ValueError
  | TypeError
  | AttributeError
  | OverflowError
  | RequestException
  | JSONDecodeError
  | OperationalError
  | BindingError

text \<open>
  The objects that \<^verbatim>\<open>r.json()\<close> returns: \<^verbatim>\<open>None\<close>, booleans, integers
  (unbounded), floats, strings, lists and dictionaries. A dictionary is the list of
  its items, keys distinct, read with \<open>map_of\<close>. The floats of the feed and the
  coordinates are modelled as real numbers (rounding, and a feed value that is
  itself \<^verbatim>\<open>inf\<close> or \<^verbatim>\<open>nan\<close>, are outside the model); the distances the
  geometry library computes from them can be \<^verbatim>\<open>inf\<close> or \<^verbatim>\<open>nan\<close>, see
  \<open>pyfloat\<close> below.
\<close>

datatype py =
    PNone
  | PBool bool
  | PInt int
  | PFloat real
  | PStr string
  | PList "py list"
  | PDict "(string \<times> py) list"

text \<open>Truth value of an object, as \<^verbatim>\<open>if x\<close> and \<^verbatim>\<open>x or y\<close> test it.\<close>

fun truthy :: "py \<Rightarrow> bool" where
  "truthy PNone = False"
| "truthy (PBool b) = b"
| "truthy (PInt n) = (n \<noteq> 0)"
| "truthy (PFloat r) = (r \<noteq> 0)"
| "truthy (PStr s) = (s \<noteq> [])"
| "truthy (PList xs) = (xs \<noteq> [])"
| "truthy (PDict kvs) = (kvs \<noteq> [])"

text \<open>
  \<^verbatim>\<open>x.get(key, default)\<close>: only a dictionary has the method, every other object
  raises \<^verbatim>\<open>AttributeError\<close>.
\<close>

definition lookup :: "(string \<times> py) list \<Rightarrow> string \<Rightarrow> py \<Rightarrow> py" where
  "lookup kvs key dflt = (case map_of kvs key of None \<Rightarrow> dflt | Some v \<Rightarrow> v)"

fun py_get :: "py \<Rightarrow> string \<Rightarrow> py \<Rightarrow> error + py" where
  "py_get (PDict kvs) key dflt = Inr (lookup kvs key dflt)"
| "py_get _ key dflt = Inl AttributeError"

text \<open>
  \<^verbatim>\<open>for x in v\<close>: a list gives its elements, a dictionary its keys, a string its
  characters; any other object is not iterable (\<^verbatim>\<open>TypeError\<close>).
\<close>

fun py_iter :: "py \<Rightarrow> error + py list" where
  "py_iter (PList xs) = Inr xs"
| "py_iter (PDict kvs) = Inr (map (\<lambda>kv. PStr (fst kv)) kvs)"
| "py_iter (PStr s) = Inr (map (\<lambda>c. PStr [c]) s)"
| "py_iter _ = Inl TypeError"

text \<open>
  \<^verbatim>\<open>str.lower()\<close> on the ASCII letters (a \<open>string\<close> is a list of bytes; other
  characters are left as they are).
\<close>

definition lower_char :: "char \<Rightarrow> char" where
  "lower_char c =
     (let n = (of_char c :: nat) in if 65 \<le> n \<and> n \<le> 90 then char_of (n + 32) else c)"

definition lower :: "string \<Rightarrow> string" where
  "lower s = map lower_char s"

text \<open>\<^verbatim>\<open>needle in hay\<close> on strings: \<open>needle\<close> occurs as a contiguous part.\<close>

fun contains :: "string \<Rightarrow> string \<Rightarrow> bool" where
  "contains needle [] = (needle = [])"
| "contains needle (c # cs) =
     (take (length needle) (c # cs) = needle \<or> contains needle cs)"

section \<open>Route geometry and snapping\<close>

text \<open>
  The geometry objects and their operations come from the library
  \<^verbatim>\<open>shapely\<close>, which is not part of the repository: they are parameters of the
  model. \<open>'g\<close> is the type of a geometry used as one piece (a \<^verbatim>\<open>LineString\<close>,
  or any other geometry that is not a \<^verbatim>\<open>MultiLineString\<close>); the record holds the
  operations the program calls on it. A point is \<open>(x, y)\<close>, and the program builds
  \<^verbatim>\<open>Point(lon, lat)\<close>.

  A distance is a float that the program compares: a number, \<^verbatim>\<open>inf\<close> (the
  computation overflows, as it does for a coordinate near the largest double) or
  \<^verbatim>\<open>nan\<close>. \<open>fl_less\<close> and \<open>fl_le\<close> are \<^verbatim>\<open><\<close> and \<^verbatim>\<open><=\<close> on such
  floats: every comparison with \<^verbatim>\<open>nan\<close> is false, and \<^verbatim>\<open>inf < inf\<close> is false.
\<close>

type_synonym point = "real \<times> real"

datatype pyfloat = Finite real | Infinity | NaN

fun fl_less :: "pyfloat \<Rightarrow> pyfloat \<Rightarrow> bool" where
  "fl_less (Finite a) (Finite b) = (a < b)"
| "fl_less (Finite a) Infinity = True"
| "fl_less _ _ = False"

fun fl_le :: "pyfloat \<Rightarrow> pyfloat \<Rightarrow> bool" where
  "fl_le (Finite a) (Finite b) = (a \<le> b)"
| "fl_le (Finite a) Infinity = True"
| "fl_le Infinity Infinity = True"
| "fl_le _ _ = False"

record 'g shapely =
  is_empty :: "'g \<Rightarrow> bool"
  distance :: "point \<Rightarrow> 'g \<Rightarrow> pyfloat"
  project :: "'g \<Rightarrow> point \<Rightarrow> real"
  interpolate :: "'g \<Rightarrow> real \<Rightarrow> point"

text \<open>
  A route geometry as the program distinguishes it by \<^verbatim>\<open>geom_type\<close>: a
  \<^verbatim>\<open>MultiLineString\<close> with its components \<^verbatim>\<open>geoms.geoms\<close>, or anything else,
  used whole. The truth value of a geometry is \<^verbatim>\<open>not is_empty\<close>; a
  \<^verbatim>\<open>MultiLineString\<close> is empty when every component is.
\<close>

datatype 'g geometry = MultiLineString "'g list" | Whole 'g

fun geom_is_empty :: "'g shapely \<Rightarrow> 'g geometry \<Rightarrow> bool" where
  "geom_is_empty ops (MultiLineString ls) = list_all (is_empty ops) ls"
| "geom_is_empty ops (Whole g) = is_empty ops g"

text \<open>
  \<^verbatim>\<open>route_geometries\<close> maps a route code to a geometry or to \<^verbatim>\<open>None\<close>;
  \<^verbatim>\<open>route_geometries.get(k)\<close> is \<^verbatim>\<open>None\<close> for a missing key too.
\<close>

type_synonym 'g route_index = "string \<rightharpoonup> 'g geometry option"

definition index_get :: "'g route_index \<Rightarrow> string \<Rightarrow> 'g geometry option" where
  "index_get route_geometries k = (case route_geometries k of None \<Rightarrow> None | Some v \<Rightarrow> v)"

text \<open>\<^verbatim>\<open>buffer_distance = 0.0003\<close>\<close>

definition buffer_distance :: real where
  "buffer_distance = 3 / 10000"

text \<open>
  The loop over the components of a \<^verbatim>\<open>MultiLineString\<close>. The state is
  \<open>(closest_geom, min_distance)\<close>, at first \<^verbatim>\<open>None\<close> and \<^verbatim>\<open>float("inf")\<close>.
  A component is taken when \<^verbatim>\<open>dist < min_distance\<close>: a distance that is
  \<^verbatim>\<open>inf\<close> or \<^verbatim>\<open>nan\<close> never is.
\<close>

fun closest_loop ::
  "'g shapely \<Rightarrow> point \<Rightarrow> 'g list \<Rightarrow> 'g option \<times> pyfloat \<Rightarrow> 'g option \<times> pyfloat"
where
  "closest_loop ops point [] st = st"
| "closest_loop ops point (line # ls) (closest_geom, min_distance) =
     (let dist = distance ops point line in
      if fl_less dist min_distance
      then closest_loop ops point ls (Some line, dist)
      else closest_loop ops point ls (closest_geom, min_distance))"

text \<open>
  \<^verbatim>\<open>filter_and_snap(route_code, lat, lon)\<close>. When the loop has taken no
  component, \<^verbatim>\<open>closest_geom\<close> is still \<^verbatim>\<open>None\<close> at
  \<^verbatim>\<open>closest_geom.interpolate\<close>, which raises \<^verbatim>\<open>AttributeError\<close>. The
  coordinates given and returned are real numbers.
\<close>

definition filter_and_snap ::
  "'g shapely \<Rightarrow> 'g route_index \<Rightarrow> string \<Rightarrow> real \<Rightarrow> real \<Rightarrow> error + (real \<times> real)"
where
  "filter_and_snap ops route_geometries route_code lat lon =
     (case index_get route_geometries (lower route_code) of
        None \<Rightarrow> Inr (lat, lon)
      | Some geoms \<Rightarrow>
          if geom_is_empty ops geoms then Inr (lat, lon)
          else
            let point = (lon, lat);
                st = (case geoms of
                        MultiLineString ls \<Rightarrow> closest_loop ops point ls (None, Infinity)
                      | Whole g \<Rightarrow> (Some g, distance ops point g));
                closest_geom = fst st;
                min_distance = snd st
            in if fl_le min_distance (Finite buffer_distance)
               then Inr (lat, lon)
               else (case closest_geom of
                       None \<Rightarrow> Inl AttributeError
                     | Some c \<Rightarrow>
                         let nearest_point = interpolate ops c (project ops c point)
                         in Inr (snd nearest_point, fst nearest_point)))"

text \<open>
  What the claims call the components of a geometry and the minimum distance of a
  point to it: the least of the distances to the components that are numbers, and
  \<open>Infinity\<close> when none is.
\<close>

fun components :: "'g geometry \<Rightarrow> 'g list" where
  "components (MultiLineString ls) = ls"
| "components (Whole g) = [g]"

fun numbers :: "pyfloat list \<Rightarrow> real list" where
  "numbers [] = []"
| "numbers (Finite d # ds) = d # numbers ds"
| "numbers (_ # ds) = numbers ds"

definition min_dist :: "'g shapely \<Rightarrow> point \<Rightarrow> 'g geometry \<Rightarrow> pyfloat" where
  "min_dist ops point geoms =
     (case numbers (map (distance ops point) (components geoms)) of
        [] \<Rightarrow> Infinity
      | d # ds \<Rightarrow> Finite (Min (set (d # ds))))"

definition known_geometry :: "'g shapely \<Rightarrow> 'g route_index \<Rightarrow> string \<Rightarrow> 'g geometry \<Rightarrow> bool" where
  "known_geometry ops route_geometries route_code geoms \<longleftrightarrow>
     index_get route_geometries (lower route_code) = Some geoms \<and> \<not> geom_is_empty ops geoms"

subsection \<open>An instance of the library: straight two-point lines in the plane\<close>

text \<open>
  A \<^verbatim>\<open>LineString\<close> with two vertices \<open>a\<close> and \<open>b\<close>: the parameter of the
  nearest point of the segment, the distance to it, the distance along the line
  (\<^verbatim>\<open>project\<close>) and the point at a distance along the line, clamped to the ends
  (\<^verbatim>\<open>interpolate\<close>; a negative distance is measured back from the end). The
  distance is the square root of a sum of squares, and in double arithmetic the sum
  overflows to \<^verbatim>\<open>inf\<close> from \<open>double_limit\<close> on; otherwise the instance
  computes over the reals. It instantiates the library parameters at concrete
  inputs.
\<close>

type_synonym segment = "point \<times> point"

definition clamp01 :: "real \<Rightarrow> real" where
  "clamp01 t = max 0 (min 1 t)"

definition seg_len2 :: "segment \<Rightarrow> real" where
  "seg_len2 s = (fst (snd s) - fst (fst s))\<^sup>2 + (snd (snd s) - snd (fst s))\<^sup>2"

definition seg_at :: "segment \<Rightarrow> real \<Rightarrow> point" where
  "seg_at s t = (fst (fst s) + t * (fst (snd s) - fst (fst s)),
                 snd (fst s) + t * (snd (snd s) - snd (fst s)))"

definition seg_param :: "segment \<Rightarrow> point \<Rightarrow> real" where
  "seg_param s p =
     (if seg_len2 s = 0 then 0
      else clamp01 (((fst p - fst (fst s)) * (fst (snd s) - fst (fst s))
                   + (snd p - snd (fst s)) * (snd (snd s) - snd (fst s))) / seg_len2 s))"

definition double_limit :: real where
  "double_limit = 2 ^ 1024 - 2 ^ 970"

definition seg_distance :: "point \<Rightarrow> segment \<Rightarrow> pyfloat" where
  "seg_distance p s =
     (let q = seg_at s (seg_param s p);
          sq = (fst p - fst q)\<^sup>2 + (snd p - snd q)\<^sup>2
      in if double_limit \<le> sq then Infinity else Finite (sqrt sq))"

definition seg_project :: "segment \<Rightarrow> point \<Rightarrow> real" where
  "seg_project s p = seg_param s p * sqrt (seg_len2 s)"

definition seg_interpolate :: "segment \<Rightarrow> real \<Rightarrow> point" where
  "seg_interpolate s d =
     (if seg_len2 s = 0 then fst s
      else seg_at s (clamp01 ((if d < 0 then sqrt (seg_len2 s) + d else d) / sqrt (seg_len2 s))))"

definition segment_ops :: "segment shapely" where
  "segment_ops = \<lparr> is_empty = (\<lambda>s. False), distance = seg_distance,
                   project = seg_project, interpolate = seg_interpolate \<rparr>"

section \<open>Fetching and parsing the feed\<close>

text \<open>
  What the program takes from the Python runtime and from SQLite, as parameters:
  \<open>str_to_float\<close> and \<open>str_to_int\<close> are \<^verbatim>\<open>float(s)\<close> and \<^verbatim>\<open>int(s)\<close> on a
  string (\<open>None\<close> is their \<^verbatim>\<open>ValueError\<close>), \<open>int_to_text\<close> and \<open>real_to_text\<close>
  give the text SQLite stores for an integer and for a float in a column of TEXT
  affinity, and \<open>ENABLE_DEBUG\<close> and \<open>POLL_SECONDS\<close> are the settings read from the
  environment.
\<close>

record runtime =
  str_to_float :: "string \<Rightarrow> real option"
  str_to_int :: "string \<Rightarrow> int option"
  int_to_text :: "int \<Rightarrow> string"
  real_to_text :: "real \<Rightarrow> string"
  ENABLE_DEBUG :: bool
  POLL_SECONDS :: int

text \<open>
  \<^verbatim>\<open>float(x)\<close>. An integer too large for a double raises
  \<^verbatim>\<open>OverflowError\<close>: the conversion rounds to nearest, so the first integer that
  overflows is \<open>2 ^ 1024 - 2 ^ 970\<close>, halfway between the largest double and
  \<open>2 ^ 1024\<close>. \<^verbatim>\<open>None\<close>, lists and dictionaries raise \<^verbatim>\<open>TypeError\<close>.
\<close>

definition float_overflow :: "int \<Rightarrow> bool" where
  "float_overflow n \<longleftrightarrow> 2 ^ 1024 - 2 ^ 970 \<le> \<bar>n\<bar>"

fun py_float :: "runtime \<Rightarrow> py \<Rightarrow> error + real" where
  "py_float rt (PStr s) = (case str_to_float rt s of None \<Rightarrow> Inl ValueError | Some r \<Rightarrow> Inr r)"
| "py_float rt (PInt n) = (if float_overflow n then Inl OverflowError else Inr (of_int n))"
| "py_float rt (PFloat r) = Inr r"
| "py_float rt (PBool b) = Inr (if b then 1 else 0)"
| "py_float rt _ = Inl TypeError"

text \<open>\<^verbatim>\<open>int(x)\<close>; a float is truncated towards zero.\<close>

fun py_int :: "runtime \<Rightarrow> py \<Rightarrow> error + int" where
  "py_int rt (PStr s) = (case str_to_int rt s of None \<Rightarrow> Inl ValueError | Some n \<Rightarrow> Inr n)"
| "py_int rt (PInt n) = Inr n"
| "py_int rt (PFloat r) = Inr (if 0 \<le> r then \<lfloor>r\<rfloor> else \<lceil>r\<rceil>)"
| "py_int rt (PBool b) = Inr (if b then 1 else 0)"
| "py_int rt _ = Inl TypeError"

text \<open>
  \<^verbatim>\<open>float(t[key]) if t.get(key) else None\<close> and
  \<^verbatim>\<open>int(t[key]) if t.get(key) else None\<close>, for a dictionary \<open>t\<close>.
\<close>

definition opt_float :: "runtime \<Rightarrow> (string \<times> py) list \<Rightarrow> string \<Rightarrow> error + real option" where
  "opt_float rt t key =
     (if truthy (lookup t key PNone)
      then (case py_float rt (lookup t key PNone) of Inl e \<Rightarrow> Inl e | Inr r \<Rightarrow> Inr (Some r))
      else Inr None)"

definition opt_int :: "runtime \<Rightarrow> (string \<times> py) list \<Rightarrow> string \<Rightarrow> error + int option" where
  "opt_int rt t key =
     (if truthy (lookup t key PNone)
      then (case py_int rt (lookup t key PNone) of Inl e \<Rightarrow> Inl e | Inr n \<Rightarrow> Inr (Some n))
      else Inr None)"

text \<open>What the program prints and the other effects it has on the outside, in order.\<close>

datatype event =
    ClockRead string
  | HttpGet string
  | Sleep real
  | PrintWritingTo
  | PrintPollingEvery int
  | PrintUnexpectedContentType string string
  | PrintResponseHead string
  | PrintCTAError string py py
  | PrintRaw string py "real option" "real option" py
  | PrintAfterSnap "real option" "real option"
  | PrintRows string string nat
  | PrintRequestFailed string
  | PrintSnapshotComplete string nat
  | PrintStopping
  | ConnClose

text \<open>The normalized dictionary of one train, as \<^verbatim>\<open>out.append({...})\<close> builds it.\<close>

record position =
  rn :: py
  next_station :: py
  lat :: "real option"
  lon :: "real option"
  heading :: "int option"
  arriving_now :: int
  delayed :: int

text \<open>
  \<^verbatim>\<open>if lat and lon: lat, lon = filter_and_snap(route_code, lat, lon)\<close>. The test is
  on truth values: \<^verbatim>\<open>None\<close> is false, and so is the float \<^verbatim>\<open>0.0\<close>.
\<close>

fun snap_if_present ::
  "'g shapely \<Rightarrow> 'g route_index \<Rightarrow> string \<Rightarrow> real option \<Rightarrow> real option
     \<Rightarrow> error + (real option \<times> real option)"
where
  "snap_if_present ops route_geometries route_code (Some la) (Some lo) =
     (if la \<noteq> 0 \<and> lo \<noteq> 0
      then (case filter_and_snap ops route_geometries route_code la lo of
              Inl e \<Rightarrow> Inl e
            | Inr (la', lo') \<Rightarrow> Inr (Some la', Some lo'))
      else Inr (Some la, Some lo))"
| "snap_if_present ops route_geometries route_code lat0 lon0 = Inr (lat0, lon0)"

text \<open>
  The body of the \<^verbatim>\<open>try\<close> for one train entry \<open>t\<close>: what it prints, and the row
  it appends or the exception it raises. The first use of \<open>t\<close> is \<^verbatim>\<open>t.get("lat")\<close>,
  so an entry that is not a dictionary raises \<^verbatim>\<open>AttributeError\<close>.
\<close>

fun train_entry ::
  "runtime \<Rightarrow> 'g shapely \<Rightarrow> 'g route_index \<Rightarrow> string \<Rightarrow> py \<Rightarrow> event list \<times> (error + position)"
where
  "train_entry rt ops route_geometries route_code (PDict t) =
     (case opt_float rt t ''lat'' of
        Inl e \<Rightarrow> ([], Inl e)
      | Inr lat0 \<Rightarrow>
     (case opt_float rt t ''lon'' of
        Inl e \<Rightarrow> ([], Inl e)
      | Inr lon0 \<Rightarrow>
     (let raw = [PrintRaw route_code (lookup t ''rn'' PNone) lat0 lon0 (lookup t ''heading'' PNone)]
      in case snap_if_present ops route_geometries route_code lat0 lon0 of
        Inl e \<Rightarrow> (raw, Inl e)
      | Inr (lat1, lon1) \<Rightarrow>
     (let printed = raw @ (if ENABLE_DEBUG rt then [PrintAfterSnap lat1 lon1] else [])
      in case opt_int rt t ''heading'' of
        Inl e \<Rightarrow> (printed, Inl e)
      | Inr h \<Rightarrow>
          (printed,
           Inr \<lparr> rn = lookup t ''rn'' PNone,
                 next_station = lookup t ''nextStaNm'' PNone,
                 lat = lat1,
                 lon = lon1,
                 heading = h,
                 arriving_now = (if lookup t ''isApp'' PNone = PStr ''1'' then 1 else 0),
                 delayed = (if lookup t ''isDly'' PNone = PStr ''1'' then 1 else 0) \<rparr>)))))"
| "train_entry rt ops route_geometries route_code _ = ([], Inl AttributeError)"

text \<open>
  \<^verbatim>\<open>for t in ...: try: ... except (ValueError, TypeError): continue\<close>. The
  accumulator is \<open>(out, printed)\<close>. Any other exception leaves the function (what
  was printed before it is not tracked).
\<close>

fun train_loop ::
  "runtime \<Rightarrow> 'g shapely \<Rightarrow> 'g route_index \<Rightarrow> string \<Rightarrow> py list
     \<Rightarrow> position list \<times> event list \<Rightarrow> error + (position list \<times> event list)"
where
  "train_loop rt ops route_geometries route_code [] acc = Inr acc"
| "train_loop rt ops route_geometries route_code (t # ts) (out, printed) =
     (case train_entry rt ops route_geometries route_code t of
        (pr, Inr row) \<Rightarrow>
          train_loop rt ops route_geometries route_code ts (out @ [row], printed @ pr)
      | (pr, Inl e) \<Rightarrow>
          if e = ValueError \<or> e = TypeError
          then train_loop rt ops route_geometries route_code ts (out, printed @ pr)
          else Inl e)"

text \<open>
  \<^verbatim>\<open>for block in ctatt.get("route", []): for t in block.get("train", []) or []: ...\<close>
\<close>

fun block_loop ::
  "runtime \<Rightarrow> 'g shapely \<Rightarrow> 'g route_index \<Rightarrow> string \<Rightarrow> py list
     \<Rightarrow> position list \<times> event list \<Rightarrow> error + (position list \<times> event list)"
where
  "block_loop rt ops route_geometries route_code [] acc = Inr acc"
| "block_loop rt ops route_geometries route_code (block # bs) acc =
     (case py_get block ''train'' (PList []) of
        Inl e \<Rightarrow> Inl e
      | Inr tr \<Rightarrow>
     (case py_iter (if truthy tr then tr else PList []) of
        Inl e \<Rightarrow> Inl e
      | Inr ts \<Rightarrow>
     (case train_loop rt ops route_geometries route_code ts acc of
        Inl e \<Rightarrow> Inl e
      | Inr acc' \<Rightarrow> block_loop rt ops route_geometries route_code bs acc')))"

text \<open>
  The answer of \<^verbatim>\<open>requests.get\<close>: the call raises, or it returns a response.
  \<open>status_ok\<close> says that \<^verbatim>\<open>raise_for_status()\<close> does not raise, \<open>content_type\<close>
  is the header (if present), \<open>body_text\<close> is \<^verbatim>\<open>r.text\<close> and \<open>body_json\<close> is
  what \<^verbatim>\<open>r.json()\<close> returns (\<open>None\<close> when it raises).
\<close>

record response =
  status_ok :: bool
  content_type :: "string option"
  body_text :: string
  body_json :: "py option"

datatype http_outcome = GetRaises | Response response

definition fetch_route_positions ::
  "runtime \<Rightarrow> 'g shapely \<Rightarrow> 'g route_index \<Rightarrow> http_outcome \<Rightarrow> string
     \<Rightarrow> error + (position list \<times> event list)"
where
  "fetch_route_positions rt ops route_geometries answer route_code =
     (case answer of
        GetRaises \<Rightarrow> Inl RequestException
      | Response r \<Rightarrow>
          if \<not> status_ok r then Inl RequestException
          else
            let ct = lower (case content_type r of None \<Rightarrow> [] | Some h \<Rightarrow> h) in
            if \<not> contains ''json'' ct
            then Inr ([], [PrintUnexpectedContentType route_code ct,
                           PrintResponseHead (take 300 (body_text r))])
            else
              (case body_json r of
                 None \<Rightarrow> Inl JSONDecodeError
               | Some data \<Rightarrow>
              (case py_get data ''ctatt'' (PDict []) of
                 Inl e \<Rightarrow> Inl e
               | Inr ctatt \<Rightarrow>
              (case py_get ctatt ''errCd'' PNone of
                 Inl e \<Rightarrow> Inl e
               | Inr errCd \<Rightarrow>
                   if errCd \<noteq> PNone \<and> errCd \<noteq> PStr ''0''
                   then (case py_get ctatt ''errNm'' PNone of
                           Inl e \<Rightarrow> Inl e
                         | Inr errNm \<Rightarrow> Inr ([], [PrintCTAError route_code errCd errNm]))
                   else
                     (case py_get ctatt ''route'' (PList []) of
                        Inl e \<Rightarrow> Inl e
                      | Inr rs \<Rightarrow>
                     (case py_iter rs of
                        Inl e \<Rightarrow> Inl e
                      | Inr blocks \<Rightarrow>
                          block_loop rt ops route_geometries route_code blocks ([], [])))))))"

section \<open>The snapshot store\<close>

text \<open>
  The SQLite database: one table per route, created by \<^verbatim>\<open>SCHEMA_SQL\<close> with the
  unique index on \<^verbatim>\<open>(ts_utc, rn)\<close>. A table is the list of its rows in insertion
  order; a row holds the eight columns the \<^verbatim>\<open>INSERT\<close> supplies (the
  \<^verbatim>\<open>id\<close> column is assigned by SQLite and is left out). \<^verbatim>\<open>ts_utc\<close> is
  \<^verbatim>\<open>TEXT NOT NULL\<close> and is always bound from a string.
\<close>

datatype sqlval = SNull | SInt int | SReal real | SText string

record row =
  c_ts_utc :: string
  c_rn :: sqlval
  c_next_station :: sqlval
  c_lat :: sqlval
  c_lon :: sqlval
  c_heading :: sqlval
  c_arriving_now :: sqlval
  c_delayed :: sqlval

type_synonym db = "string \<rightharpoonup> row list"

text \<open>
  The routes, in the order of the dictionary \<^verbatim>\<open>ROUTES\<close>: route code and table.
\<close>

definition ROUTES :: "(string \<times> string) list" where
  "ROUTES = [(''Red'', ''red''), (''Blue'', ''blue''), (''Brn'', ''brn''), (''G'', ''g''),
             (''Org'', ''org''), (''P'', ''p''), (''Pink'', ''pink''), (''Y'', ''y'')]"

text \<open>\<^verbatim>\<open>CREATE TABLE IF NOT EXISTS\<close> for every route.\<close>

definition ensure_db :: "db \<Rightarrow> db" where
  "ensure_db conn =
     foldl (\<lambda>c t. case c t of None \<Rightarrow> c(t \<mapsto> []) | Some _ \<Rightarrow> c) conn (map snd ROUTES)"

text \<open>
  Binding a Python value as a statement parameter: an integer outside 64 bits raises
  \<^verbatim>\<open>OverflowError\<close>, a list or a dictionary is not supported.
\<close>

definition int64 :: "int \<Rightarrow> bool" where
  "int64 n \<longleftrightarrow> - (2 ^ 63) \<le> n \<and> n < 2 ^ 63"

fun bind_py :: "py \<Rightarrow> error + sqlval" where
  "bind_py PNone = Inr SNull"
| "bind_py (PBool b) = Inr (SInt (if b then 1 else 0))"
| "bind_py (PInt n) = (if int64 n then Inr (SInt n) else Inl OverflowError)"
| "bind_py (PFloat r) = Inr (SReal r)"
| "bind_py (PStr s) = Inr (SText s)"
| "bind_py _ = Inl BindingError"

text \<open>
  The columns \<^verbatim>\<open>rn\<close> and \<^verbatim>\<open>next_station\<close> have TEXT affinity: a number is
  stored as its text.
\<close>

fun text_affinity :: "runtime \<Rightarrow> sqlval \<Rightarrow> sqlval" where
  "text_affinity rt (SInt n) = SText (int_to_text rt n)"
| "text_affinity rt (SReal r) = SText (real_to_text rt r)"
| "text_affinity rt v = v"

definition opt_py :: "('a \<Rightarrow> py) \<Rightarrow> 'a option \<Rightarrow> py" where
  "opt_py f x = (case x of None \<Rightarrow> PNone | Some v \<Rightarrow> f v)"

text \<open>
  One tuple of \<^verbatim>\<open>vals\<close>, bound and stored: the parameters are bound in the order
  of the tuple, and the first that fails raises.
\<close>

definition bind_row :: "runtime \<Rightarrow> string \<Rightarrow> position \<Rightarrow> error + row" where
  "bind_row rt ts_iso r =
     (case bind_py (rn r) of Inl e \<Rightarrow> Inl e | Inr v_rn \<Rightarrow>
     (case bind_py (next_station r) of Inl e \<Rightarrow> Inl e | Inr v_ns \<Rightarrow>
     (case bind_py (opt_py PFloat (lat r)) of Inl e \<Rightarrow> Inl e | Inr v_lat \<Rightarrow>
     (case bind_py (opt_py PFloat (lon r)) of Inl e \<Rightarrow> Inl e | Inr v_lon \<Rightarrow>
     (case bind_py (opt_py PInt (heading r)) of Inl e \<Rightarrow> Inl e | Inr v_h \<Rightarrow>
     (case bind_py (PInt (arriving_now r)) of Inl e \<Rightarrow> Inl e | Inr v_a \<Rightarrow>
     (case bind_py (PInt (delayed r)) of Inl e \<Rightarrow> Inl e | Inr v_d \<Rightarrow>
        Inr \<lparr> c_ts_utc = ts_iso,
              c_rn = text_affinity rt v_rn,
              c_next_station = text_affinity rt v_ns,
              c_lat = v_lat,
              c_lon = v_lon,
              c_heading = v_h,
              c_arriving_now = v_a,
              c_delayed = v_d \<rparr>)))))))"

fun bind_rows :: "runtime \<Rightarrow> string \<Rightarrow> position list \<Rightarrow> error + row list" where
  "bind_rows rt ts_iso [] = Inr []"
| "bind_rows rt ts_iso (r # rs) =
     (case bind_row rt ts_iso r of
        Inl e \<Rightarrow> Inl e
      | Inr v \<Rightarrow> (case bind_rows rt ts_iso rs of Inl e \<Rightarrow> Inl e | Inr vs \<Rightarrow> Inr (v # vs)))"

text \<open>
  \<^verbatim>\<open>INSERT OR IGNORE\<close> of one row under the unique index on
  \<^verbatim>\<open>(ts_utc, rn)\<close>: the row is skipped when a stored row has the same
  \<^verbatim>\<open>ts_utc\<close> and the same \<^verbatim>\<open>rn\<close>. In a unique index of SQLite a
  \<^verbatim>\<open>NULL\<close> is distinct from every value, another \<^verbatim>\<open>NULL\<close> included, so a
  row whose \<^verbatim>\<open>rn\<close> is \<^verbatim>\<open>NULL\<close> never conflicts.
\<close>

definition conflicts :: "row list \<Rightarrow> row \<Rightarrow> bool" where
  "conflicts stored new \<longleftrightarrow>
     c_rn new \<noteq> SNull \<and>
     list_ex (\<lambda>r. c_ts_utc r = c_ts_utc new \<and> c_rn r = c_rn new) stored"

definition insert_or_ignore :: "row list \<Rightarrow> row \<Rightarrow> row list" where
  "insert_or_ignore stored new = (if conflicts stored new then stored else stored @ [new])"

text \<open>
  \<^verbatim>\<open>insert_snapshot(conn, table, ts_iso, rows)\<close>. \<^verbatim>\<open>executemany\<close> runs in one
  transaction inside \<^verbatim>\<open>with conn:\<close>, which commits on success and rolls back on
  an exception: on an error the database is as before the call. A missing table is
  the \<^verbatim>\<open>OperationalError\<close> of preparing the statement.
\<close>

definition insert_snapshot ::
  "runtime \<Rightarrow> db \<Rightarrow> string \<Rightarrow> string \<Rightarrow> position list \<Rightarrow> error + db"
where
  "insert_snapshot rt conn table ts_iso rows =
     (if rows = [] then Inr conn
      else (case conn table of
              None \<Rightarrow> Inl OperationalError
            | Some stored \<Rightarrow>
                (case bind_rows rt ts_iso rows of
                   Inl e \<Rightarrow> Inl e
                 | Inr vals \<Rightarrow> Inr (conn(table \<mapsto> foldl insert_or_ignore stored vals)))))"

section \<open>The polling loop\<close>

text \<open>
  The outside world of \<^verbatim>\<open>main\<close>: \<open>utc_now k\<close> is what the \<open>k\<close>-th reading of the
  clock returns (the ISO string of \<^verbatim>\<open>datetime.now(timezone.utc)\<close>), \<open>http k\<close> the
  answer to the \<open>k\<close>-th request, given its route code. The state of the program
  counts the readings and the requests made so far, holds the database and records
  the effects in order.
\<close>

record world =
  utc_now :: "nat \<Rightarrow> string"
  http :: "nat \<Rightarrow> string \<Rightarrow> http_outcome"

record pstate =
  conn :: db
  reads :: nat
  reqs :: nat
  trace :: "event list"

text \<open>
  The exceptions that \<^verbatim>\<open>except requests.RequestException\<close> catches. The
  \<^verbatim>\<open>JSONDecodeError\<close> of \<^verbatim>\<open>r.json()\<close> is one of them (requests 2.27 and
  later).
\<close>

fun is_request_exception :: "error \<Rightarrow> bool" where
  "is_request_exception RequestException = True"
| "is_request_exception JSONDecodeError = True"
| "is_request_exception _ = False"

text \<open>
  The body of the loop over \<^verbatim>\<open>ROUTES.items()\<close> for one route: the
  \<^verbatim>\<open>try\<close> with the fetch, the insert, the line printed and the pause, and the
  \<^verbatim>\<open>except\<close>. The result is the exception that leaves the loop (if any), the
  state, and what is added to \<^verbatim>\<open>total\<close>.
\<close>

definition poll_route ::
  "runtime \<Rightarrow> 'g shapely \<Rightarrow> 'g route_index \<Rightarrow> world \<Rightarrow> string \<Rightarrow> string \<times> string \<Rightarrow> pstate
     \<Rightarrow> error option \<times> pstate \<times> nat"
where
  "poll_route rt ops route_geometries w ts_iso route st =
     (let rt_code = fst route;
          table = snd route;
          st1 = st\<lparr> reqs := reqs st + 1, trace := trace st @ [HttpGet rt_code] \<rparr>
      in case fetch_route_positions rt ops route_geometries (http w (reqs st) rt_code) rt_code of
           Inl e \<Rightarrow>
             if is_request_exception e
             then (None, st1\<lparr> trace := trace st1 @ [PrintRequestFailed rt_code] \<rparr>, 0)
             else (Some e, st1, 0)
         | Inr (rows, printed) \<Rightarrow>
             (case insert_snapshot rt (conn st1) table ts_iso rows of
                Inl e \<Rightarrow>
                  if is_request_exception e
                  then (None, st1\<lparr> trace := trace st1 @ printed @ [PrintRequestFailed rt_code] \<rparr>, 0)
                  else (Some e, st1\<lparr> trace := trace st1 @ printed \<rparr>, 0)
              | Inr conn' \<Rightarrow>
                  (None,
                   st1\<lparr> conn := conn',
                        trace := trace st1 @ printed
                                 @ [PrintRows ts_iso rt_code (length rows), Sleep (2 / 10)] \<rparr>,
                   length rows)))"

fun poll_routes ::
  "runtime \<Rightarrow> 'g shapely \<Rightarrow> 'g route_index \<Rightarrow> world \<Rightarrow> string \<Rightarrow> (string \<times> string) list
     \<Rightarrow> pstate \<Rightarrow> nat \<Rightarrow> error option \<times> pstate \<times> nat"
where
  "poll_routes rt ops route_geometries w ts_iso [] st tot = (None, st, tot)"
| "poll_routes rt ops route_geometries w ts_iso (route # routes) st tot =
     (case poll_route rt ops route_geometries w ts_iso route st of
        (Some e, st', n) \<Rightarrow> (Some e, st', tot)
      | (None, st', n) \<Rightarrow> poll_routes rt ops route_geometries w ts_iso routes st' (tot + n))"

text \<open>
  One turn of \<^verbatim>\<open>while True\<close>, over the routes \<open>routes\<close> (\<open>ROUTES\<close> in the
  program): the timestamp, the routes, the summary line and the sleep.
\<close>

definition poll_cycle ::
  "runtime \<Rightarrow> 'g shapely \<Rightarrow> 'g route_index \<Rightarrow> world \<Rightarrow> (string \<times> string) list \<Rightarrow> pstate
     \<Rightarrow> error option \<times> pstate"
where
  "poll_cycle rt ops route_geometries w routes st =
     (let ts_iso = utc_now w (reads st);
          st1 = st\<lparr> reads := reads st + 1, trace := trace st @ [ClockRead ts_iso] \<rparr>
      in case poll_routes rt ops route_geometries w ts_iso routes st1 0 of
           (Some e, st2, tot) \<Rightarrow> (Some e, st2)
         | (None, st2, tot) \<Rightarrow>
             (None, st2\<lparr> trace := trace st2 @ [PrintSnapshotComplete ts_iso tot,
                                                Sleep (of_int (POLL_SECONDS rt))] \<rparr>))"

text \<open>
  \<^verbatim>\<open>main\<close>: the loop runs until \<^verbatim>\<open>KeyboardInterrupt\<close> or an exception that is
  not caught. \<open>n\<close> is the number of cycles completed before the interrupt arrives
  (in the sleep that ends a cycle); the connection is closed on every way out.
\<close>

fun cycles ::
  "runtime \<Rightarrow> 'g shapely \<Rightarrow> 'g route_index \<Rightarrow> world \<Rightarrow> nat \<Rightarrow> pstate \<Rightarrow> error option \<times> pstate"
where
  "cycles rt ops route_geometries w 0 st = (None, st\<lparr> trace := trace st @ [PrintStopping] \<rparr>)"
| "cycles rt ops route_geometries w (Suc n) st =
     (case poll_cycle rt ops route_geometries w ROUTES st of
        (Some e, st') \<Rightarrow> (Some e, st')
      | (None, st') \<Rightarrow> cycles rt ops route_geometries w n st')"

definition main ::
  "runtime \<Rightarrow> 'g shapely \<Rightarrow> 'g route_index \<Rightarrow> world \<Rightarrow> nat \<Rightarrow> db \<Rightarrow> error option \<times> pstate"
where
  "main rt ops route_geometries w n file =
     (case cycles rt ops route_geometries w n
             \<lparr> conn = ensure_db file, reads = 0, reqs = 0,
               trace = [PrintWritingTo, PrintPollingEvery (POLL_SECONDS rt)] \<rparr> of
        (res, st) \<Rightarrow> (res, st\<lparr> trace := trace st @ [ConnClose] \<rparr>))"

section \<open>Notions used in the claims\<close>


definition unique_runs :: "row list \<Rightarrow> bool" where
  "unique_runs stored \<longleftrightarrow>
     distinct (map (\<lambda>r. (c_ts_utc r, c_rn r)) (filter (\<lambda>r. c_rn r \<noteq> SNull) stored))"

text \<open>What \<open>fetch_route_positions\<close> returns to its caller: the rows, or the exception.\<close>

definition returned_rows :: "error + (position list \<times> event list) \<Rightarrow> error + position list" where
  "returned_rows res = (case res of Inl e \<Rightarrow> Inl e | Inr (out, printed) \<Rightarrow> Inr out)"


text \<open>The readings of the clock and the requests among a list of effects.\<close>

fun is_clock_read :: "event \<Rightarrow> bool" where
  "is_clock_read (ClockRead ts) = True"
| "is_clock_read _ = False"

fun is_print :: "event \<Rightarrow> bool" where
  "is_print (ClockRead ts) = False"
| "is_print (HttpGet rt_code) = False"
| "is_print (Sleep d) = False"
| "is_print ConnClose = False"
| "is_print _ = True"

fun fetched :: "event list \<Rightarrow> string list" where
  "fetched [] = []"
| "fetched (HttpGet rt_code # es) = rt_code # fetched es"
| "fetched (e # es) = fetched es"

section \<open>Concrete inputs\<close>

text \<open>
  A small instance on which the definitions are evaluated: a route \<^verbatim>\<open>brn\<close> made
  of two straight lines along the parallels 41 and 42, a route \<^verbatim>\<open>y\<close> without
  geometry, and the values of \<^verbatim>\<open>float\<close> and \<^verbatim>\<open>int\<close> on the literals that
  occur below (every other string is taken to be malformed).
\<close>

definition demo_line :: segment where
  "demo_line = ((-88, 42), (-86, 42))"

definition demo_far :: segment where
  "demo_far = ((-88, 41), (-86, 41))"

definition demo_geometry :: "segment geometry" where
  "demo_geometry = MultiLineString [demo_far, demo_line]"

definition demo_index :: "segment route_index" where
  "demo_index = [''brn'' \<mapsto> Some demo_geometry, ''y'' \<mapsto> None]"

definition demo_runtime :: runtime where
  "demo_runtime =
     \<lparr> str_to_float = map_of [(''41.9'', 419 / 10), (''-87'', -87), (''0.0'', 0)],
       str_to_int = map_of [(''90'', 90), (''270'', 270)],
       int_to_text = (\<lambda>n. []),
       real_to_text = (\<lambda>r. []),
       ENABLE_DEBUG = False,
       POLL_SECONDS = 30 \<rparr>"

definition demo_train :: "string \<Rightarrow> py \<Rightarrow> py" where
  "demo_train run la =
     PDict [(''rn'', PStr run), (''nextStaNm'', PStr ''Sedgwick''), (''lat'', la),
            (''lon'', PStr ''-87''), (''heading'', PStr ''90''), (''isApp'', PStr ''1''),
            (''isDly'', PStr ''0'')]"

text \<open>The largest double, \<^verbatim>\<open>1.7976931348623157e308\<close>.\<close>

definition max_double :: real where
  "max_double = 2 ^ 1024 - 2 ^ 971"

definition demo_huge :: int where
  "demo_huge = 2 ^ 1024"

definition demo_feed :: "py \<Rightarrow> py list \<Rightarrow> http_outcome" where
  "demo_feed errCd trains =
     Response \<lparr> status_ok = True,
                content_type = Some ''application/json'',
                body_text = [],
                body_json = Some (PDict [(''ctatt'',
                  PDict [(''errCd'', errCd), (''errNm'', PStr ''Invalid route''),
                         (''route'', PList [PDict [(''train'', PList trains)]])])]) \<rparr>"

definition demo_position :: "py \<Rightarrow> real \<Rightarrow> position" where
  "demo_position run la =
     \<lparr> rn = run, next_station = PStr ''Sedgwick'', lat = Some la, lon = Some (-87),
       heading = Some 90, arriving_now = 1, delayed = 0 \<rparr>"

definition demo_ts :: string where
  "demo_ts = ''2024-05-01T12:00:00+00:00''"

definition demo_row :: "sqlval \<Rightarrow> row" where
  "demo_row run =
     \<lparr> c_ts_utc = demo_ts, c_rn = run, c_next_station = SText ''Sedgwick'',
       c_lat = SReal 42, c_lon = SReal (-87), c_heading = SInt 90,
       c_arriving_now = SInt 1, c_delayed = SInt 0 \<rparr>"

definition demo_routes :: "(string \<times> string) list" where
  "demo_routes = [(''Red'', ''red''), (''Brn'', ''brn'')]"

definition demo_world :: world where
  "demo_world =
     \<lparr> utc_now = (\<lambda>k. demo_ts),
       http = (\<lambda>k rt_code. if rt_code = ''Red'' then GetRaises
                             else demo_feed (PStr ''0'') [demo_train ''101'' (PStr ''41.9'')]) \<rparr>"

definition demo_state :: pstate where
  "demo_state = \<lparr> conn = [''red'' \<mapsto> [], ''brn'' \<mapsto> []], reads = 0, reqs = 0, trace = [] \<rparr>"

text \<open>
  The effects of processing \<open>demo_routes\<close> in \<open>demo_world\<close>, where the request for
  \<^verbatim>\<open>Red\<close> fails and the feed of \<^verbatim>\<open>Brn\<close> holds one train, and the state
  they lead to from \<open>demo_state\<close> (with the effects \<open>before\<close> and \<open>after\<close> them and
  \<open>n\<close> readings of the clock).
\<close>

definition demo_events :: "event list" where
  "demo_events =
     [HttpGet ''Red'', PrintRequestFailed ''Red'', HttpGet ''Brn'',
      PrintRaw ''Brn'' (PStr ''101'') (Some (419 / 10)) (Some (-87)) (PStr ''90''),
      PrintRows demo_ts ''Brn'' 1, Sleep (1 / 5)]"

definition demo_done :: "event list \<Rightarrow> nat \<Rightarrow> event list \<Rightarrow> pstate" where
  "demo_done before n after =
     \<lparr> conn = [''red'' \<mapsto> [], ''brn'' \<mapsto> [demo_row (SText ''101'')]],
       reads = n, reqs = 2, trace = before @ demo_events @ after \<rparr>"

section \<open>Properties of the snapper\<close>

lemma numbers_iff: "d \<in> set (numbers xs) \<longleftrightarrow> Finite d \<in> set xs"
proof (induction xs)
  case Nil
  then show ?case by simp
next
  case (Cons x xs)
  then show ?case by (cases x) auto
qed

lemma fl_le_Finite: "fl_le x (Finite b) \<longleftrightarrow> (\<exists>a. x = Finite a \<and> a \<le> b)"
  by (cases x) auto

lemma closest_loop_inv:
  assumes "st = (None, Infinity) \<or> (\<exists>c d. st = (Some c, Finite d) \<and> distance ops p c = Finite d)"
  shows "(st = (None, Infinity) \<and> (\<forall>l\<in>set ls. \<forall>e. distance ops p l \<noteq> Finite e) \<and>
          closest_loop ops p ls st = (None, Infinity)) \<or>
         (\<exists>c d. closest_loop ops p ls st = (Some c, Finite d) \<and> distance ops p c = Finite d \<and>
              (c \<in> set ls \<or> fst st = Some c) \<and>
              (\<forall>l\<in>set ls. \<forall>e. distance ops p l = Finite e \<longrightarrow> d \<le> e) \<and>
              (\<forall>m. snd st = Finite m \<longrightarrow> d \<le> m))"
  using assms
proof (induction ls arbitrary: st)
  case Nil
  then show ?case by auto
next
  case (Cons l ls)
  obtain c m where st: "st = (c, m)" by (cases st)
  show ?case
  proof (cases "fl_less (distance ops p l) m")
    case True
    then obtain e where e: "distance ops p l = Finite e"
      by (cases "distance ops p l") auto
    have step: "closest_loop ops p (l # ls) st = closest_loop ops p ls (Some l, Finite e)"
      using True st e by simp
    from Cons.IH[of "(Some l, Finite e)"] e
    obtain c' d' where r: "closest_loop ops p ls (Some l, Finite e) = (Some c', Finite d')"
      "distance ops p c' = Finite d'" "c' \<in> set ls \<or> l = c'"
      "\<forall>l\<in>set ls. \<forall>e. distance ops p l = Finite e \<longrightarrow> d' \<le> e" "d' \<le> e"
      by auto
    have "\<forall>m'. snd st = Finite m' \<longrightarrow> d' \<le> m'"
      using True st e r(5) by auto
    moreover have "\<forall>l'\<in>set (l # ls). \<forall>e'. distance ops p l' = Finite e' \<longrightarrow> d' \<le> e'"
      using r(4,5) e by auto
    moreover have "c' \<in> set (l # ls) \<or> fst st = Some c'"
      using r(3) by auto
    ultimately show ?thesis using step r(1,2) by auto
  next
    case False
    have step: "closest_loop ops p (l # ls) st = closest_loop ops p ls st"
      using False st by simp
    show ?thesis
    proof (cases "st = (None, Infinity)")
      case True
      with False st have nf: "\<forall>e. distance ops p l \<noteq> Finite e"
        by (cases "distance ops p l") auto
      from Cons.IH[of st] True
      consider "(\<forall>l\<in>set ls. \<forall>e. distance ops p l \<noteq> Finite e)"
          "closest_loop ops p ls st = (None, Infinity)"
        | c' d' where "closest_loop ops p ls st = (Some c', Finite d')"
          "distance ops p c' = Finite d'" "c' \<in> set ls"
          "\<forall>l\<in>set ls. \<forall>e. distance ops p l = Finite e \<longrightarrow> d' \<le> e"
        by auto
      then show ?thesis
      proof cases
        case 1
        with True nf step show ?thesis by auto
      next
        case 2
        with True nf step show ?thesis by auto
      qed
    next
      case nz: False
      with Cons.prems st obtain c0 d0 where c0: "c = Some c0" "m = Finite d0"
        "distance ops p c0 = Finite d0" by auto
      from Cons.IH[of st] Cons.prems nz
      obtain c' d' where r: "closest_loop ops p ls st = (Some c', Finite d')"
        "distance ops p c' = Finite d'" "c' \<in> set ls \<or> fst st = Some c'"
        "\<forall>l\<in>set ls. \<forall>e. distance ops p l = Finite e \<longrightarrow> d' \<le> e"
        "\<forall>m. snd st = Finite m \<longrightarrow> d' \<le> m"
        by auto
      from r(5) st c0 have le0: "d' \<le> d0" by simp
      have "\<forall>e. distance ops p l = Finite e \<longrightarrow> d' \<le> e"
      proof (intro allI impI)
        fix e assume "distance ops p l = Finite e"
        with False c0 have "\<not> e < d0" by simp
        with le0 show "d' \<le> e" by simp
      qed
      with r(4) have "\<forall>l'\<in>set (l # ls). \<forall>e'. distance ops p l' = Finite e' \<longrightarrow> d' \<le> e'"
        by auto
      moreover have "c' \<in> set (l # ls) \<or> fst st = Some c'" using r(3) by auto
      ultimately show ?thesis using step r(1,2,5) by auto
    qed
  qed
qed

lemma closest_loop_none:
  assumes "\<forall>l\<in>set ls. \<forall>e. distance ops p l \<noteq> Finite e"
  shows "closest_loop ops p ls (None, Infinity) = (None, Infinity)"
  using closest_loop_inv[of "(None, Infinity)" ops p ls] assms by auto

lemma closest_loop_some:
  assumes "l \<in> set ls" and "distance ops p l = Finite e"
  shows "\<exists>c\<in>set ls. \<exists>d. closest_loop ops p ls (None, Infinity) = (Some c, Finite d) \<and>
           distance ops p c = Finite d \<and>
           Min (set (numbers (map (distance ops p) ls))) = d"
proof -
  from closest_loop_inv[of "(None, Infinity)" ops p ls] assms
  obtain c d where c: "closest_loop ops p ls (None, Infinity) = (Some c, Finite d)"
    "distance ops p c = Finite d" "c \<in> set ls"
    "\<forall>l\<in>set ls. \<forall>e. distance ops p l = Finite e \<longrightarrow> d \<le> e"
    by auto
  have "Min (set (numbers (map (distance ops p) ls))) = d"
  proof (rule Min_eqI)
    show "finite (set (numbers (map (distance ops p) ls)))" by simp
    show "d \<in> set (numbers (map (distance ops p) ls))"
      using c(2,3) by (force simp: numbers_iff)
    show "\<And>y. y \<in> set (numbers (map (distance ops p) ls)) \<Longrightarrow> d \<le> y"
      using c(4) by (auto simp: numbers_iff)
  qed
  with c show ?thesis by auto
qed

text \<open>The state before the test of the tolerance, when some distance is a number.\<close>

lemma snap_state:
  assumes "min_dist ops p geoms = Finite m"
  shows "\<exists>c\<in>set (components geoms).
           (case geoms of
              MultiLineString ls \<Rightarrow> closest_loop ops p ls (None, Infinity)
            | Whole g \<Rightarrow> (Some g, distance ops p g))
           = (Some c, Finite m) \<and>
           distance ops p c = Finite m"
proof -
  from assms obtain d ds where n: "numbers (map (distance ops p) (components geoms)) = d # ds"
    and m: "m = Min (set (d # ds))"
    by (auto simp: min_dist_def split: list.splits)
  then have "d \<in> set (numbers (map (distance ops p) (components geoms)))" by simp
  then obtain l where l: "l \<in> set (components geoms)" "distance ops p l = Finite d"
    by (auto simp: numbers_iff)
  show ?thesis
  proof (cases geoms)
    case (MultiLineString ls)
    with l closest_loop_some[of l ls ops p d] n m show ?thesis by auto
  next
    case (Whole g)
    with l n m show ?thesis by auto
  qed
qed

text \<open>
  Outside the tolerance, when some distance is a number: the result is the
  projection onto a component at the minimum distance, as \<open>(y, x)\<close>.
\<close>

lemma snap_projects_onto_nearest:
  assumes "known_geometry ops route_geometries route_code geoms"
      and "min_dist ops (lon0, lat0) geoms = Finite m" and "buffer_distance < m"
  shows "\<exists>c\<in>set (components geoms).
           distance ops (lon0, lat0) c = Finite m \<and>
           filter_and_snap ops route_geometries route_code lat0 lon0
             = Inr (snd (interpolate ops c (project ops c (lon0, lat0))),
                    fst (interpolate ops c (project ops c (lon0, lat0))))"
proof -
  from assms(1) have g: "index_get route_geometries (lower route_code) = Some geoms"
    and ne: "\<not> geom_is_empty ops geoms"
    by (simp_all add: known_geometry_def)
  from snap_state[OF assms(2)] obtain c where c: "c \<in> set (components geoms)"
    and st: "(case geoms of
        MultiLineString ls \<Rightarrow> closest_loop ops (lon0, lat0) ls (None, Infinity)
      | Whole g \<Rightarrow> (Some g, distance ops (lon0, lat0) g))
     = (Some c, Finite m)"
    and d: "distance ops (lon0, lat0) c = Finite m"
    by auto
  have "filter_and_snap ops route_geometries route_code lat0 lon0
             = Inr (snd (interpolate ops c (project ops c (lon0, lat0))),
                    fst (interpolate ops c (project ops c (lon0, lat0))))"
    using g ne st assms(3) by (simp add: filter_and_snap_def Let_def)
  with c d show ?thesis by blast
qed

text \<open>
  A \<^verbatim>\<open>MultiLineString\<close> none of whose distances is a number: no component is
  taken and the snapper raises.
\<close>

lemma snap_raises_without_number:
  assumes "index_get route_geometries (lower route_code) = Some (MultiLineString ls)"
      and "\<not> geom_is_empty ops (MultiLineString ls)"
      and "\<forall>l\<in>set ls. \<forall>e. distance ops (lon0, lat0) l \<noteq> Finite e"
  shows "filter_and_snap ops route_geometries route_code lat0 lon0 = Inl AttributeError"
  using assms closest_loop_none[OF assms(3)]
  by (simp add: filter_and_snap_def Let_def)

subsection \<open>The instance\<close>

lemma lower_Brn: "lower ''Brn'' = ''brn''"
  by code_simp

lemma lower_Y: "lower ''Y'' = ''y''"
  by code_simp

lemma demo_known: "known_geometry segment_ops demo_index ''Brn'' demo_geometry"
  by (simp add: known_geometry_def lower_Brn demo_index_def index_get_def segment_ops_def
      demo_geometry_def)

lemma demo_unknown: "index_get demo_index (lower ''Y'') = None"
  by (simp add: lower_Y demo_index_def index_get_def)

lemma seg_distance_number:
  assumes "seg_at s (seg_param s p) = q"
      and "(fst p - fst q)\<^sup>2 + (snd p - snd q)\<^sup>2 = d\<^sup>2" and "0 \<le> d" and "d \<le> 100"
  shows "seg_distance p s = Finite d"
proof -
  have "d\<^sup>2 \<le> 100\<^sup>2" using assms(3,4) by (rule power_mono[rotated])
  moreover have "(100::real)\<^sup>2 < double_limit" by (simp add: double_limit_def)
  ultimately have "\<not> double_limit \<le> d\<^sup>2" by linarith
  moreover have "sqrt (d\<^sup>2) = d" using assms(3) by simp
  ultimately show ?thesis using assms(1,2) by (simp add: seg_distance_def Let_def)
qed

lemma seg_distance_overflow:
  assumes "seg_at s (seg_param s p) = q"
      and "double_limit \<le> (fst p - fst q)\<^sup>2 + (snd p - snd q)\<^sup>2"
  shows "seg_distance p s = Infinity"
  using assms by (simp add: seg_distance_def Let_def)

lemma nearest_on_line: "seg_at demo_line (seg_param demo_line (-87, y)) = (-87, 42)"
  by (simp add: demo_line_def seg_param_def seg_at_def seg_len2_def clamp01_def)

lemma nearest_on_far: "seg_at demo_far (seg_param demo_far (-87, y)) = (-87, 41)"
  by (simp add: demo_far_def seg_param_def seg_at_def seg_len2_def clamp01_def)

lemma dist_off_line: "seg_distance (-87, 419 / 10) demo_line = Finite (1 / 10)"
  by (rule seg_distance_number[OF nearest_on_line]) (simp_all add: power2_eq_square)

lemma dist_off_far: "seg_distance (-87, 419 / 10) demo_far = Finite (9 / 10)"
  by (rule seg_distance_number[OF nearest_on_far]) (simp_all add: power2_eq_square)

lemma dist_near_line: "seg_distance (-87, 210001 / 5000) demo_line = Finite (1 / 5000)"
  by (rule seg_distance_number[OF nearest_on_line]) (simp_all add: power2_eq_square)

lemma dist_near_far: "seg_distance (-87, 210001 / 5000) demo_far = Finite (5001 / 5000)"
  by (rule seg_distance_number[OF nearest_on_far]) (simp_all add: power2_eq_square)

lemma dist_zero_line: "seg_distance (-87, 0) demo_line = Finite 42"
  by (rule seg_distance_number[OF nearest_on_line]) (simp_all add: power2_eq_square)

lemma dist_zero_far: "seg_distance (-87, 0) demo_far = Finite 41"
  by (rule seg_distance_number[OF nearest_on_far]) (simp_all add: power2_eq_square)

lemma dist_max_line: "seg_distance (-87, max_double) demo_line = Infinity"
  by (rule seg_distance_overflow[OF nearest_on_line])
    (simp add: double_limit_def max_double_def power2_eq_square)

lemma dist_max_far: "seg_distance (-87, max_double) demo_far = Infinity"
  by (rule seg_distance_overflow[OF nearest_on_far])
    (simp add: double_limit_def max_double_def power2_eq_square)

lemma min_dist_off: "min_dist segment_ops (-87, 419 / 10) demo_geometry = Finite (1 / 10)"
  by (simp add: min_dist_def segment_ops_def demo_geometry_def dist_off_line dist_off_far)

lemma min_dist_near: "min_dist segment_ops (-87, 210001 / 5000) demo_geometry = Finite (1 / 5000)"
  by (simp add: min_dist_def segment_ops_def demo_geometry_def dist_near_line dist_near_far)

lemma nearest_off_line: "seg_interpolate demo_line (seg_project demo_line (-87, 419 / 10)) = (-87, 42)"
  by (simp add: seg_project_def seg_interpolate_def seg_param_def seg_at_def seg_len2_def
      clamp01_def demo_line_def)

lemma nearest_zero_far: "seg_interpolate demo_far (seg_project demo_far (-87, 0)) = (-87, 41)"
  by (simp add: seg_project_def seg_interpolate_def seg_param_def seg_at_def seg_len2_def
      clamp01_def demo_far_def)

lemma snap_demo_off: "filter_and_snap segment_ops demo_index ''Brn'' (419 / 10) (-87) = Inr (42, -87)"
  by (simp add: filter_and_snap_def lower_Brn demo_index_def index_get_def segment_ops_def
      demo_geometry_def dist_off_line dist_off_far nearest_off_line buffer_distance_def Let_def)

lemma snap_demo_zero: "filter_and_snap segment_ops demo_index ''Brn'' 0 (-87) = Inr (41, -87)"
  by (simp add: filter_and_snap_def lower_Brn demo_index_def index_get_def segment_ops_def
      demo_geometry_def dist_zero_line dist_zero_far nearest_zero_far buffer_distance_def Let_def)

section \<open>Claims about the snapper\<close>

text \<open>
  C9. For every input coordinate, if the route identifier has no known geometry in
  the index (the lower-cased code is not a key, or its entry is \<^verbatim>\<open>None\<close> or an
  empty geometry), \<open>filter_and_snap\<close> returns exactly the input coordinate.
\<close>

theorem snap_unknown_route_unchanged:
  assumes "\<forall>geoms. \<not> known_geometry ops route_geometries route_code geoms"
  shows "filter_and_snap ops route_geometries route_code lat0 lon0 = Inr (lat0, lon0)"
  using assms
  by (auto simp: filter_and_snap_def known_geometry_def split: option.splits)

theorem snap_unknown_route_unchanged_witness:
  "(\<forall>geoms. \<not> known_geometry segment_ops demo_index ''Y'' geoms) \<and>
   filter_and_snap segment_ops demo_index ''Y'' (419 / 10) (-87) = Inr (419 / 10, -87)"
proof -
  have h: "\<forall>geoms. \<not> known_geometry segment_ops demo_index ''Y'' geoms"
    by (simp add: known_geometry_def demo_unknown)
  from snap_unknown_route_unchanged[OF h] h show ?thesis by simp
qed

text \<open>
  C3. For every route with a known geometry and every input coordinate whose
  minimum distance to that geometry is within the tolerance \<open>buffer_distance\<close>
  (0.0003 degrees), \<open>filter_and_snap\<close> returns the input coordinate unchanged. The
  minimum distance \<open>min_dist\<close> is the least of the distances to the components that
  are numbers; when all of them are, it is their minimum.
\<close>

theorem snap_within_tolerance_unchanged:
  assumes "known_geometry ops route_geometries route_code geoms"
      and "fl_le (min_dist ops (lon0, lat0) geoms) (Finite buffer_distance)"
  shows "filter_and_snap ops route_geometries route_code lat0 lon0 = Inr (lat0, lon0)"
proof -
  from assms(1) have g: "index_get route_geometries (lower route_code) = Some geoms"
    and ne: "\<not> geom_is_empty ops geoms"
    by (simp_all add: known_geometry_def)
  from assms(2) obtain m where m: "min_dist ops (lon0, lat0) geoms = Finite m"
    "m \<le> buffer_distance" by (auto simp: fl_le_Finite)
  from snap_state[OF m(1)] obtain c where
    "(case geoms of
        MultiLineString ls \<Rightarrow> closest_loop ops (lon0, lat0) ls (None, Infinity)
      | Whole g \<Rightarrow> (Some g, distance ops (lon0, lat0) g))
     = (Some c, Finite m)"
    by auto
  with g ne m(2) show ?thesis
    by (simp add: filter_and_snap_def)
qed

theorem snap_within_tolerance_unchanged_witness:
  "known_geometry segment_ops demo_index ''Brn'' demo_geometry \<and>
   fl_le (min_dist segment_ops (-87, 210001 / 5000) demo_geometry) (Finite buffer_distance) \<and>
   filter_and_snap segment_ops demo_index ''Brn'' (210001 / 5000) (-87) = Inr (210001 / 5000, -87)"
proof -
  have h: "fl_le (min_dist segment_ops (-87, 210001 / 5000) demo_geometry) (Finite buffer_distance)"
    by (simp add: min_dist_near buffer_distance_def)
  from snap_within_tolerance_unchanged[OF demo_known h] demo_known h show ?thesis by simp
qed

text \<open>
  C4. The claim: for every route with a known geometry and every input coordinate
  strictly outside the tolerance, \<open>filter_and_snap\<close> takes the minimum distance over
  all components and returns the projection of the input point onto the component
  that achieves it, a point of that component. This holds when the distance to some
  component is a number: the result is \<^verbatim>\<open>c.interpolate(c.project(point))\<close> for a
  component \<open>c\<close> at the minimum distance (\<open>snap_projects_onto_nearest\<close>; that
  this point lies on \<open>c\<close> is what the library promises of \<^verbatim>\<open>interpolate\<close>).
  It fails on a \<^verbatim>\<open>MultiLineString\<close> when no
  distance is: \<^verbatim>\<open>dist < min_distance\<close> is false for every component, since
  \<^verbatim>\<open>min_distance\<close> starts at \<^verbatim>\<open>float("inf")\<close>, so \<^verbatim>\<open>closest_geom\<close> is
  still \<^verbatim>\<open>None\<close> when \<^verbatim>\<open>closest_geom.interpolate\<close> is called
  (\<open>snap_raises_without_number\<close>). The theorem evaluates the snapper on the route
  \<^verbatim>\<open>brn\<close> at the latitude \<open>max_double\<close>, where the distance to both lines
  overflows to \<^verbatim>\<open>inf\<close>: the coordinate is outside the tolerance and the call
  raises \<^verbatim>\<open>AttributeError\<close> instead of returning a projection.
\<close>

theorem snap_raises_at_largest_double:
  "known_geometry segment_ops demo_index ''Brn'' demo_geometry \<and>
   \<not> fl_le (min_dist segment_ops (-87, max_double) demo_geometry) (Finite buffer_distance) \<and>
   filter_and_snap segment_ops demo_index ''Brn'' max_double (-87) = Inl AttributeError"
proof -
  have "min_dist segment_ops (-87, max_double) demo_geometry = Infinity"
    by (simp add: min_dist_def segment_ops_def demo_geometry_def dist_max_line dist_max_far)
  moreover have "filter_and_snap segment_ops demo_index ''Brn'' max_double (-87)
      = Inl AttributeError"
    by (simp add: filter_and_snap_def lower_Brn demo_index_def index_get_def segment_ops_def
        demo_geometry_def dist_max_line dist_max_far Let_def)
  ultimately show ?thesis using demo_known by simp
qed

section \<open>Properties of the store\<close>

lemma insert_or_ignore_prefix: "\<exists>new. insert_or_ignore stored v = stored @ new \<and> set new \<subseteq> {v}"
  by (simp add: insert_or_ignore_def)

lemma foldl_insert_prefix:
  "\<exists>new. foldl insert_or_ignore stored vals = stored @ new \<and> set new \<subseteq> set vals"
proof (induction vals arbitrary: stored)
  case Nil
  then show ?case by simp
next
  case (Cons v vals)
  obtain n1 where n1: "insert_or_ignore stored v = stored @ n1" "set n1 \<subseteq> {v}"
    using insert_or_ignore_prefix by blast
  obtain n2 where n2: "foldl insert_or_ignore (stored @ n1) vals = (stored @ n1) @ n2"
    "set n2 \<subseteq> set vals"
    using Cons.IH by blast
  have "foldl insert_or_ignore stored (v # vals) = stored @ (n1 @ n2)"
    using n1 n2 by simp
  moreover have "set (n1 @ n2) \<subseteq> set (v # vals)"
    using n1 n2 by auto
  ultimately show ?case by blast
qed

lemma conflicts_append: "conflicts stored v \<Longrightarrow> conflicts (stored @ new) v"
  by (auto simp: conflicts_def list_ex_iff)

lemma conflicts_after_insert:
  "c_rn v \<noteq> SNull \<Longrightarrow> conflicts (insert_or_ignore stored v) v"
  by (auto simp: insert_or_ignore_def conflicts_def list_ex_iff)

lemma conflicts_after_fold:
  assumes "v \<in> set vals" "c_rn v \<noteq> SNull"
  shows "conflicts (foldl insert_or_ignore stored vals) v"
  using assms
proof (induction vals arbitrary: stored)
  case Nil
  then show ?case by simp
next
  case (Cons a vals)
  show ?case
  proof (cases "v = a")
    case True
    obtain new where "foldl insert_or_ignore (insert_or_ignore stored a) vals
        = insert_or_ignore stored a @ new"
      using foldl_insert_prefix by blast
    then show ?thesis
      using conflicts_after_insert[OF Cons.prems(2), of stored] True
      by (simp add: conflicts_append)
  next
    case False
    with Cons show ?thesis by simp
  qed
qed

lemma fold_all_conflicting:
  "\<forall>v\<in>set vals. conflicts stored v \<Longrightarrow> foldl insert_or_ignore stored vals = stored"
  by (induction vals) (simp_all add: insert_or_ignore_def)

lemma fold_twice:
  assumes "\<forall>v\<in>set vals. c_rn v \<noteq> SNull"
  shows "foldl insert_or_ignore (foldl insert_or_ignore stored vals) vals
         = foldl insert_or_ignore stored vals"
  using assms by (intro fold_all_conflicting) (simp add: conflicts_after_fold)

lemma unique_runs_insert:
  "unique_runs stored \<Longrightarrow> unique_runs (insert_or_ignore stored v)"
  by (auto simp: unique_runs_def insert_or_ignore_def conflicts_def list_ex_iff)

lemma unique_runs_fold:
  "unique_runs stored \<Longrightarrow> unique_runs (foldl insert_or_ignore stored vals)"
  by (induction vals arbitrary: stored) (simp_all add: unique_runs_insert)

lemma bind_rows_ts:
  "bind_rows rt ts_iso rows = Inr vals \<Longrightarrow> \<forall>v\<in>set vals. c_ts_utc v = ts_iso"
proof (induction rows arbitrary: vals)
  case Nil
  then show ?case by simp
next
  case (Cons r rows)
  then show ?case
    by (auto simp: bind_row_def split: sum.splits)
qed

lemma insert_snapshot_idempotent:
  assumes "insert_snapshot rt conn0 table ts_iso rows = Inr conn1"
      and "bind_rows rt ts_iso rows = Inr vals"
      and "\<forall>v\<in>set vals. c_rn v \<noteq> SNull"
  shows "insert_snapshot rt conn1 table ts_iso rows = Inr conn1"
proof (cases "rows = []")
  case True
  then show ?thesis by (simp add: insert_snapshot_def)
next
  case False
  with assms(1,2) obtain stored where s: "conn0 table = Some stored"
    "conn1 = conn0(table \<mapsto> foldl insert_or_ignore stored vals)"
    by (auto simp: insert_snapshot_def split: option.splits)
  then show ?thesis
    using False assms(2) fold_twice[OF assms(3), of stored]
    by (simp add: insert_snapshot_def)
qed

lemma insert_snapshot_unique:
  assumes "insert_snapshot rt conn0 table ts_iso rows = Inr conn1"
      and "conn0 t = Some stored" "unique_runs stored"
  shows "\<exists>stored'. conn1 t = Some stored' \<and> unique_runs stored'"
  using assms
  by (auto simp: insert_snapshot_def unique_runs_fold split: if_splits option.splits sum.splits)

lemma bind_demo_null: "bind_rows demo_runtime demo_ts [demo_position PNone 42] = Inr [demo_row SNull]"
  by (simp add: bind_row_def demo_position_def opt_py_def int64_def demo_row_def)

lemma bind_demo_run: "bind_rows demo_runtime demo_ts [demo_position (PStr run) 42] = Inr [demo_row (SText run)]"
  by (simp add: bind_row_def demo_position_def opt_py_def int64_def demo_row_def)

section \<open>Claims about the store\<close>

text \<open>
  C10. Calling \<open>insert_snapshot\<close> with an empty list of records performs no
  database operation: the database is returned as it was, for every table, whatever
  the timestamp and the table name (a table that does not exist included, which
  with a non-empty list raises \<^verbatim>\<open>OperationalError\<close>).
\<close>

theorem insert_empty_is_noop:
  "insert_snapshot rt conn0 table ts_iso [] = Inr conn0"
  by (simp add: insert_snapshot_def)

text \<open>
  C2. The claim: inserting the same \<^verbatim>\<open>(timestamp, run)\<close> pair twice with
  \<open>insert_snapshot\<close> leaves exactly one stored row, and no two rows of a route table
  share \<^verbatim>\<open>(timestamp, run)\<close>. This holds for rows that have a run number
  (\<open>insert_snapshot_idempotent\<close>, \<open>insert_snapshot_unique\<close>). It fails for a row
  without one: \<^verbatim>\<open>r.get("rn")\<close> is \<^verbatim>\<open>None\<close>, the column is \<^verbatim>\<open>NULL\<close>, and
  the unique index never reports a conflict for it. The theorem evaluates the two
  calls on a record without run number: the table ends with two rows that agree on
  the timestamp and on every other column.
\<close>

theorem null_run_inserted_twice:
  "insert_snapshot demo_runtime (conn demo_state) ''brn'' demo_ts [demo_position PNone 42]
     = Inr [''red'' \<mapsto> [], ''brn'' \<mapsto> [demo_row SNull]] \<and>
   insert_snapshot demo_runtime [''red'' \<mapsto> [], ''brn'' \<mapsto> [demo_row SNull]] ''brn'' demo_ts
       [demo_position PNone 42]
     = Inr [''red'' \<mapsto> [], ''brn'' \<mapsto> [demo_row SNull, demo_row SNull]]"
  by (simp add: insert_snapshot_def demo_state_def bind_demo_null insert_or_ignore_def conflicts_def
      demo_row_def del: bind_rows.simps)

lemma same_run_inserted_once:
  "insert_snapshot demo_runtime (conn demo_state) ''brn'' demo_ts [demo_position (PStr ''101'') 42]
     = Inr [''red'' \<mapsto> [], ''brn'' \<mapsto> [demo_row (SText ''101'')]] \<and>
   insert_snapshot demo_runtime [''red'' \<mapsto> [], ''brn'' \<mapsto> [demo_row (SText ''101'')]] ''brn''
       demo_ts [demo_position (PStr ''101'') 42]
     = Inr [''red'' \<mapsto> [], ''brn'' \<mapsto> [demo_row (SText ''101'')]]"
  by (simp add: insert_snapshot_def demo_state_def bind_demo_run insert_or_ignore_def conflicts_def
      demo_row_def del: bind_rows.simps)

section \<open>Properties of the fetcher\<close>

lemma json_content_type: "contains ''json'' (lower ''application/json'')"
  by code_simp

lemma entry_ok: "train_entry demo_runtime segment_ops demo_index ''Brn'' (demo_train ''101'' (PStr ''41.9''))
  = ([PrintRaw ''Brn'' (PStr ''101'') (Some (419 / 10)) (Some (-87)) (PStr ''90'')],
     Inr (demo_position (PStr ''101'') 42))"
  by (simp add: demo_train_def demo_runtime_def opt_float_def opt_int_def lookup_def
      snap_demo_off demo_position_def)

lemma entry_zero: "train_entry demo_runtime segment_ops demo_index ''Brn'' (demo_train ''102'' (PStr ''0.0''))
  = ([PrintRaw ''Brn'' (PStr ''102'') (Some 0) (Some (-87)) (PStr ''90'')],
     Inr (demo_position (PStr ''102'') 0))"
  by (simp add: demo_train_def demo_runtime_def opt_float_def opt_int_def lookup_def
      demo_position_def)

lemma entry_huge: "train_entry demo_runtime segment_ops demo_index ''Brn'' (demo_train ''104'' (PInt demo_huge))
  = ([], Inl OverflowError)"
  by (simp add: demo_train_def demo_runtime_def opt_float_def opt_int_def lookup_def
      float_overflow_def demo_huge_def)

lemma entry_bad: "train_entry demo_runtime segment_ops demo_index ''Brn'' (demo_train ''105'' (PStr ''abc''))
  = ([], Inl ValueError)"
  by (simp add: demo_train_def demo_runtime_def opt_float_def opt_int_def lookup_def)

lemma fetch_demo:
  "fetch_route_positions rt ops idx (demo_feed (PStr ''0'') trains) rc
   = train_loop rt ops idx rc trains ([], [])"
  by (simp add: fetch_route_positions_def demo_feed_def json_content_type lookup_def
      split: sum.splits)

lemma entry_snapped_when_both_nonzero:
  assumes "opt_float rt t ''lat'' = Inr (Some la)" and "opt_float rt t ''lon'' = Inr (Some lo)"
      and "la \<noteq> 0" and "lo \<noteq> 0"
      and "train_entry rt ops route_geometries route_code (PDict t) = (pr, Inr row)"
  shows "\<exists>la' lo'. filter_and_snap ops route_geometries route_code la lo = Inr (la', lo') \<and>
                   lat row = Some la' \<and> lon row = Some lo'"
  using assms by (auto simp: Let_def split: sum.splits prod.splits)

lemma entry_missing_coordinate_not_snapped:
  assumes "opt_float rt t ''lat'' = Inr lat0" and "opt_float rt t ''lon'' = Inr lon0"
      and "lat0 = None \<or> lon0 = None"
      and "train_entry rt ops route_geometries route_code (PDict t) = (pr, Inr row)"
  shows "lat row = lat0 \<and> lon row = lon0"
  using assms by (cases lat0; cases lon0) (auto simp: Let_def split: sum.splits prod.splits)

lemma missing_key_is_none: "map_of t key = None \<Longrightarrow> opt_float rt t key = Inr None"
  by (simp add: opt_float_def lookup_def)

lemma returned_rows_simps [simp]:
  "returned_rows (Inl e) = Inl e" "returned_rows (Inr (out, pr)) = Inr out"
  by (simp_all add: returned_rows_def)

lemma train_loop_rows_indep:
  "returned_rows (train_loop rt ops idx rc ts (out, pr))
   = returned_rows (train_loop rt ops idx rc ts (out, pr'))"
proof (induction ts arbitrary: out pr pr')
  case Nil
  then show ?case by simp
next
  case (Cons t ts)
  obtain p res where e: "train_entry rt ops idx rc t = (p, res)" by (cases "train_entry rt ops idx rc t")
  show ?case
  proof (cases res)
    case (Inl err)
    with e Cons.IH[of out "pr @ p" "pr' @ p"] show ?thesis by simp
  next
    case (Inr row)
    with e Cons.IH[of "out @ [row]" "pr @ p" "pr' @ p"] show ?thesis by simp
  qed
qed

lemma malformed_entry_dropped:
  assumes "snd (train_entry rt ops idx rc t) = Inl e" and "e = ValueError \<or> e = TypeError"
  shows "returned_rows (train_loop rt ops idx rc (xs @ t # ys) acc)
         = returned_rows (train_loop rt ops idx rc (xs @ ys) acc)"
proof (induction xs arbitrary: acc)
  case Nil
  obtain out pr where acc: "acc = (out, pr)" by (cases acc)
  obtain p where "train_entry rt ops idx rc t = (p, Inl e)"
    using assms(1) by (cases "train_entry rt ops idx rc t") auto
  then show ?case using assms(2) acc train_loop_rows_indep[of rt ops idx rc ys out "pr @ p" pr]
    by auto
next
  case (Cons x xs)
  obtain out pr where acc: "acc = (out, pr)" by (cases acc)
  obtain p res where e: "train_entry rt ops idx rc x = (p, res)" by (cases "train_entry rt ops idx rc x")
  show ?case
  proof (cases res)
    case (Inl err)
    with e acc Cons.IH[of "(out, pr @ p)"] show ?thesis by simp
  next
    case (Inr row)
    with e acc Cons.IH[of "(out @ [row], pr @ p)"] show ?thesis by simp
  qed
qed

section \<open>Claims about the fetcher\<close>

text \<open>
  C8. If the status block of the response reports an error code that is neither
  \<^verbatim>\<open>None\<close> nor the string \<^verbatim>\<open>"0"\<close>, \<open>fetch_route_positions\<close> prints the error
  and returns an empty list; it raises nothing.
\<close>

theorem feed_error_code_returns_empty:
  assumes "status_ok r"
      and "contains ''json'' (lower (case content_type r of None \<Rightarrow> [] | Some h \<Rightarrow> h))"
      and "body_json r = Some (PDict data)"
      and "map_of data ''ctatt'' = Some (PDict ctatt)"
      and "map_of ctatt ''errCd'' = Some errCd"
      and "errCd \<noteq> PNone" and "errCd \<noteq> PStr ''0''"
  shows "fetch_route_positions rt ops route_geometries (Response r) route_code
         = Inr ([], [PrintCTAError route_code errCd (lookup ctatt ''errNm'' PNone)])"
  using assms by (simp add: fetch_route_positions_def lookup_def)

theorem feed_error_code_returns_empty_witness:
  "fetch_route_positions demo_runtime segment_ops demo_index
     (demo_feed (PStr ''101'') [demo_train ''101'' (PStr ''41.9'')]) ''Brn''
   = Inr ([], [PrintCTAError ''Brn'' (PStr ''101'') (PStr ''Invalid route'')])"
proof -
  obtain r where r: "demo_feed (PStr ''101'') [demo_train ''101'' (PStr ''41.9'')] = Response r"
    "status_ok r" "content_type r = Some ''application/json''"
    "body_json r = Some (PDict [(''ctatt'',
                  PDict [(''errCd'', PStr ''101''), (''errNm'', PStr ''Invalid route''),
                         (''route'', PList [PDict [(''train'', PList [demo_train ''101'' (PStr ''41.9'')])]])])])"
    by (simp add: demo_feed_def)
  have c: "contains ''json'' (lower (case content_type r of None \<Rightarrow> [] | Some h \<Rightarrow> h))"
    using r(3) json_content_type by simp
  from feed_error_code_returns_empty[OF r(2) c r(4), of _ "PStr ''101''" demo_runtime segment_ops demo_index "''Brn''"]
  show ?thesis using r(1) by (simp add: lookup_def)
qed

text \<open>
  C1. The claim: for every parsed entry whose latitude and longitude are both
  present (not \<^verbatim>\<open>None\<close>), the snapper is called on the coordinate before the row
  is yielded, and an entry missing either coordinate is yielded unsnapped with the
  missing coordinate \<^verbatim>\<open>None\<close>. The second half holds
  (\<open>entry_missing_coordinate_not_snapped\<close>), and the first holds when both
  coordinates are different from zero (\<open>entry_snapped_when_both_nonzero\<close>). But the
  test \<^verbatim>\<open>if lat and lon\<close> is on truth values, and the float \<^verbatim>\<open>0.0\<close> is false:
  an entry with latitude \<^verbatim>\<open>"0.0"\<close> has both coordinates present and is yielded
  without the call. The theorem evaluates the fetch of such an entry on route
  \<^verbatim>\<open>Brn\<close>: the row comes back with latitude 0, where the snapper would have
  returned latitude 41.
\<close>

theorem zero_latitude_not_snapped:
  "returned_rows (fetch_route_positions demo_runtime segment_ops demo_index
       (demo_feed (PStr ''0'') [demo_train ''102'' (PStr ''0.0'')]) ''Brn'')
     = Inr [demo_position (PStr ''102'') 0] \<and>
   filter_and_snap segment_ops demo_index ''Brn'' 0 (-87) = Inr (41, -87)"
  by (simp add: fetch_demo entry_zero snap_demo_zero returned_rows_def)

text \<open>
  C7. The claim: an entry whose numeric fields fail to parse is dropped, the other
  entries of the response are returned unaffected, and no exception reaches the
  caller. This holds for a field that raises \<^verbatim>\<open>ValueError\<close> or
  \<^verbatim>\<open>TypeError\<close> (\<open>malformed_entry_dropped\<close>). It fails for a latitude that is
  an integer too large for a float: \<^verbatim>\<open>float\<close> raises \<^verbatim>\<open>OverflowError\<close>,
  which \<^verbatim>\<open>except (ValueError, TypeError)\<close> does not catch. The theorem evaluates
  the fetch of a response with such an entry before a valid one (the exception
  leaves \<open>fetch_route_positions\<close>), and, for comparison, the same response with the
  latitude \<^verbatim>\<open>"abc"\<close> (the entry is dropped and the valid one returned).
\<close>

theorem huge_latitude_raises:
  "fetch_route_positions demo_runtime segment_ops demo_index
       (demo_feed (PStr ''0'') [demo_train ''104'' (PInt demo_huge), demo_train ''101'' (PStr ''41.9'')])
       ''Brn''
     = Inl OverflowError \<and>
   returned_rows (fetch_route_positions demo_runtime segment_ops demo_index
       (demo_feed (PStr ''0'') [demo_train ''105'' (PStr ''abc''), demo_train ''101'' (PStr ''41.9'')])
       ''Brn'')
     = Inr [demo_position (PStr ''101'') 42]"
  by (simp add: fetch_demo entry_huge entry_bad entry_ok)

section \<open>Properties of the polling loop\<close>

lemma print_not_clock: "is_print e \<Longrightarrow> \<not> is_clock_read e"
  by (cases e) auto

lemma fetched_prints: "list_all is_print es \<Longrightarrow> fetched es = []"
proof (induction es)
  case Nil
  then show ?case by simp
next
  case (Cons e es)
  then show ?case by (cases e) auto
qed

lemma fetched_append: "fetched (xs @ ys) = fetched xs @ fetched ys"
proof (induction xs)
  case Nil
  then show ?case by simp
next
  case (Cons e es)
  then show ?case by (cases e) auto
qed

lemma train_entry_prints: "list_all is_print (fst (train_entry rt ops idx rc t))"
  by (cases t) (auto simp: Let_def split: sum.splits prod.splits)

lemma train_loop_prints:
  "train_loop rt ops idx rc ts (out, pr) = Inr (out', pr') \<Longrightarrow> list_all is_print pr
   \<Longrightarrow> list_all is_print pr'"
proof (induction ts arbitrary: out pr)
  case Nil
  then show ?case by simp
next
  case (Cons t ts)
  obtain p res where e: "train_entry rt ops idx rc t = (p, res)"
    by (cases "train_entry rt ops idx rc t")
  have p: "list_all is_print p" using train_entry_prints[of rt ops idx rc t] e by simp
  show ?case
  proof (cases res)
    case (Inl err)
    with e Cons.prems have "train_loop rt ops idx rc ts (out, pr @ p) = Inr (out', pr')"
      by (simp split: if_splits)
    from Cons.IH[OF this] p Cons.prems(2) show ?thesis by simp
  next
    case (Inr row)
    with e Cons.prems have "train_loop rt ops idx rc ts (out @ [row], pr @ p) = Inr (out', pr')"
      by simp
    from Cons.IH[OF this] p Cons.prems(2) show ?thesis by simp
  qed
qed

lemma block_loop_prints:
  "block_loop rt ops idx rc bs (out, pr) = Inr (out', pr') \<Longrightarrow> list_all is_print pr
   \<Longrightarrow> list_all is_print pr'"
proof (induction bs arbitrary: out pr)
  case Nil
  then show ?case by simp
next
  case (Cons b bs)
  from Cons.prems(1) obtain tr ts o1 p1 where
    "train_loop rt ops idx rc ts (out, pr) = Inr (o1, p1)"
    "block_loop rt ops idx rc bs (o1, p1) = Inr (out', pr')"
    by (auto split: sum.splits)
  with Cons.IH[of o1 p1] train_loop_prints[of rt ops idx rc ts out pr o1 p1] Cons.prems(2)
  show ?case by simp
qed

lemma fetch_prints:
  "fetch_route_positions rt ops idx answer rc = Inr (rows, pr) \<Longrightarrow> list_all is_print pr"
  by (auto simp: fetch_route_positions_def Let_def
      split: http_outcome.splits if_splits option.splits sum.splits
      dest: block_loop_prints)

lemma insert_snapshot_growth:
  assumes "insert_snapshot rt c table ts_iso rows = Inr c'" and "c t = Some old"
  shows "\<exists>new. c' t = Some (old @ new) \<and> (\<forall>r\<in>set new. c_ts_utc r = ts_iso)"
proof (cases "rows = []")
  case True
  with assms show ?thesis by (simp add: insert_snapshot_def)
next
  case False
  with assms(1) obtain stored vals where s: "c table = Some stored"
    "bind_rows rt ts_iso rows = Inr vals"
    "c' = c(table \<mapsto> foldl insert_or_ignore stored vals)"
    by (auto simp: insert_snapshot_def split: option.splits sum.splits)
  show ?thesis
  proof (cases "t = table")
    case True
    obtain new where n: "foldl insert_or_ignore stored vals = stored @ new" "set new \<subseteq> set vals"
      using foldl_insert_prefix by blast
    with bind_rows_ts[OF s(2)] have "\<forall>r\<in>set new. c_ts_utc r = ts_iso" by auto
    with True s n assms(2) show ?thesis by simp
  next
    case False
    with s assms(2) show ?thesis by simp
  qed
qed






text \<open>One route.\<close>

lemma poll_route_counters:
  assumes "poll_route rt ops idx w ts_iso route st = (res, st', n)"
  shows "reqs st' = reqs st + 1 \<and> reads st' = reads st"
  using assms
  by (auto simp: poll_route_def Let_def split: sum.splits prod.splits if_splits)

lemma poll_route_trace:
  assumes "poll_route rt ops idx w ts_iso route st = (res, st', n)"
  shows "\<exists>es. trace st' = trace st @ HttpGet (fst route) # es \<and>
              (\<forall>e\<in>set es. \<not> is_clock_read e) \<and> fetched es = []"
proof (cases "fetch_route_positions rt ops idx (http w (reqs st) (fst route)) (fst route)")
  case (Inl e)
  with assms show ?thesis
    by (auto simp: poll_route_def Let_def split: if_splits)
next
  case (Inr a)
  obtain rows pr where a: "a = (rows, pr)" by (cases a)
  from fetch_prints Inr a have p: "list_all is_print pr" by blast
  then have q: "\<forall>e\<in>set pr. \<not> is_clock_read e" "fetched pr = []"
    by (auto simp: list_all_iff print_not_clock fetched_prints)
  from assms Inr a q show ?thesis
    by (auto simp: poll_route_def Let_def fetched_append split: sum.splits if_splits)
qed

lemma poll_route_growth:
  assumes "poll_route rt ops idx w ts_iso route st = (res, st', n)" and "conn st t = Some old"
  shows "\<exists>new. conn st' t = Some (old @ new) \<and> (\<forall>r\<in>set new. c_ts_utc r = ts_iso)"
proof (cases "fetch_route_positions rt ops idx (http w (reqs st) (fst route)) (fst route)")
  case (Inl e)
  with assms show ?thesis
    by (auto simp: poll_route_def Let_def split: if_splits)
next
  case (Inr a)
  obtain rows pr where a: "a = (rows, pr)" by (cases a)
  show ?thesis
  proof (cases "insert_snapshot rt (conn st) (snd route) ts_iso rows")
    case (Inl e)
    with assms Inr a show ?thesis
      by (auto simp: poll_route_def Let_def split: if_splits)
  next
    case c': (Inr c')
    from insert_snapshot_growth[OF c' assms(2)] assms(1) Inr a c' show ?thesis
      by (auto simp: poll_route_def Let_def)
  qed
qed




lemma poll_routes_facts:
  assumes "poll_routes rt ops idx w ts_iso routes st tot = (res, st', tot')"
  shows "reads st' = reads st \<and>
         (res = None \<longrightarrow> reqs st' = reqs st + length routes) \<and>
         (\<exists>es. trace st' = trace st @ es \<and> (\<forall>e\<in>set es. \<not> is_clock_read e) \<and>
               (res = None \<longrightarrow> fetched es = map fst routes)) \<and>
         (\<forall>t old. conn st t = Some old \<longrightarrow>
            (\<exists>new. conn st' t = Some (old @ new) \<and> (\<forall>r\<in>set new. c_ts_utc r = ts_iso)))"
  using assms
proof (induction routes arbitrary: st tot)
  case Nil
  then show ?case by simp
next
  case (Cons route routes)
  obtain r1 s1 n1 where p: "poll_route rt ops idx w ts_iso route st = (r1, s1, n1)"
    by (cases "poll_route rt ops idx w ts_iso route st")
  note c1 = poll_route_counters[OF p]
  from poll_route_trace[OF p] obtain e1 where e1: "trace s1 = trace st @ HttpGet (fst route) # e1"
    "\<forall>e\<in>set e1. \<not> is_clock_read e" "fetched e1 = []" by blast
  have g1: "\<And>t old. conn st t = Some old \<Longrightarrow>
      \<exists>new. conn s1 t = Some (old @ new) \<and> (\<forall>r\<in>set new. c_ts_utc r = ts_iso)"
    using poll_route_growth[OF p] by blast
  show ?case
  proof (cases r1)
    case (Some e)
    with p Cons.prems have "res = Some e" "st' = s1" by auto
    with c1 e1 g1 show ?thesis by auto
  next
    case None
    with p Cons.prems have rest: "poll_routes rt ops idx w ts_iso routes s1 (tot + n1) = (res, st', tot')"
      by simp
    note ih = Cons.IH[OF rest]
    from ih obtain e2 where e2: "trace st' = trace s1 @ e2" "\<forall>e\<in>set e2. \<not> is_clock_read e"
      "res = None \<longrightarrow> fetched e2 = map fst routes" by blast
    have tr: "trace st' = trace st @ (HttpGet (fst route) # e1 @ e2)"
      using e1 e2 by simp
    have nc: "\<forall>e\<in>set (HttpGet (fst route) # e1 @ e2). \<not> is_clock_read e"
      using e1 e2 by auto
    have fe: "res = None \<longrightarrow> fetched (HttpGet (fst route) # e1 @ e2) = map fst (route # routes)"
      using e1 e2 by (simp add: fetched_append)
    have gr: "\<forall>t old. conn st t = Some old \<longrightarrow>
            (\<exists>new. conn st' t = Some (old @ new) \<and> (\<forall>r\<in>set new. c_ts_utc r = ts_iso))"
    proof (intro allI impI)
      fix t old assume "conn st t = Some old"
      from g1[OF this] obtain n1' where n1': "conn s1 t = Some (old @ n1')"
        "\<forall>r\<in>set n1'. c_ts_utc r = ts_iso" by blast
      from ih n1'(1) obtain n2' where n2': "conn st' t = Some ((old @ n1') @ n2')"
        "\<forall>r\<in>set n2'. c_ts_utc r = ts_iso" by blast
      have "conn st' t = Some (old @ (n1' @ n2'))" using n2' by simp
      moreover have "\<forall>r\<in>set (n1' @ n2'). c_ts_utc r = ts_iso" using n1' n2' by auto
      ultimately show "\<exists>new. conn st' t = Some (old @ new) \<and> (\<forall>r\<in>set new. c_ts_utc r = ts_iso)"
        by blast
    qed
    have rq: "res = None \<longrightarrow> reqs st' = reqs st + length (route # routes)"
      using ih c1 by simp
    have rd: "reads st' = reads st" using ih c1 by simp
    from rd rq tr nc fe gr show ?thesis by blast
  qed
qed



lemma fetch_demo_red:
  "fetch_route_positions demo_runtime segment_ops demo_index (http demo_world k ''Red'') ''Red''
   = Inl RequestException"
  by (simp add: demo_world_def fetch_route_positions_def)

lemma fetch_demo_brn:
  "fetch_route_positions demo_runtime segment_ops demo_index (http demo_world k ''Brn'') ''Brn''
   = Inr ([demo_position (PStr ''101'') 42],
          [PrintRaw ''Brn'' (PStr ''101'') (Some (419 / 10)) (Some (-87)) (PStr ''90'')])"
  by (simp add: demo_world_def fetch_demo entry_ok)

lemma insert_demo_brn:
  "c ''brn'' = Some [] \<Longrightarrow>
   insert_snapshot demo_runtime c ''brn'' demo_ts [demo_position (PStr ''101'') 42]
   = Inr (c(''brn'' \<mapsto> [demo_row (SText ''101'')]))"
  by (simp add: insert_snapshot_def bind_demo_run insert_or_ignore_def conflicts_def
      del: bind_rows.simps)

lemma poll_demo_brn:
  "poll_routes demo_runtime segment_ops demo_index demo_world demo_ts [(''Brn'', ''brn'')]
     (demo_state\<lparr> reads := n, reqs := reqs demo_state + 1,
                   trace := before @ [HttpGet ''Red'', PrintRequestFailed ''Red''] \<rparr>) 0
   = (None, demo_done before n [], 1)"
  by (simp add: poll_route_def demo_done_def demo_events_def demo_state_def
      fetch_demo_brn insert_demo_brn Let_def)

lemma poll_demo_routes:
  "poll_routes demo_runtime segment_ops demo_index demo_world demo_ts demo_routes
     (demo_state\<lparr> reads := n, trace := before \<rparr>) 0
   = (None, demo_done before n [], 1)"
proof -
  have step: "poll_route demo_runtime segment_ops demo_index demo_world demo_ts (''Red'', ''red'')
      (demo_state\<lparr> reads := n, trace := before \<rparr>)
    = (None, demo_state\<lparr> reads := n, reqs := reqs demo_state + 1,
                          trace := before @ [HttpGet ''Red'', PrintRequestFailed ''Red''] \<rparr>, 0)"
    by (simp add: poll_route_def fetch_demo_red Let_def demo_state_def)
  have "poll_routes demo_runtime segment_ops demo_index demo_world demo_ts demo_routes
     (demo_state\<lparr> reads := n, trace := before \<rparr>) 0
    = poll_routes demo_runtime segment_ops demo_index demo_world demo_ts [(''Brn'', ''brn'')]
     (demo_state\<lparr> reads := n, reqs := reqs demo_state + 1,
                   trace := before @ [HttpGet ''Red'', PrintRequestFailed ''Red''] \<rparr>) 0"
    unfolding demo_routes_def
    by (subst poll_routes.simps(2)) (simp add: step del: poll_routes.simps)
  also have "\<dots> = (None, demo_done before n [], 1)"
    by (rule poll_demo_brn)
  finally show ?thesis .
qed

lemma poll_demo_cycle:
  "poll_cycle demo_runtime segment_ops demo_index demo_world demo_routes demo_state
   = (None, demo_done [ClockRead demo_ts] 1 [PrintSnapshotComplete demo_ts 1, Sleep 30])"
proof -
  have "demo_state\<lparr> reads := reads demo_state + 1,
                     trace := trace demo_state @ [ClockRead (utc_now demo_world (reads demo_state))] \<rparr>
        = demo_state\<lparr> reads := 1, trace := [ClockRead demo_ts] \<rparr>"
    by (simp add: demo_state_def demo_world_def)
  moreover have "utc_now demo_world (reads demo_state) = demo_ts"
    by (simp add: demo_world_def)
  ultimately show ?thesis
    using poll_demo_routes[where n = 1 and before = "[ClockRead demo_ts]"]
    by (simp add: poll_cycle_def Let_def demo_done_def demo_runtime_def del: poll_routes.simps)
qed


section \<open>Claims about the polling loop\<close>



text \<open>
  C6. In every cycle the clock is read exactly once, before any request of the
  cycle, and every row stored during the cycle, in any table, carries that reading
  as its timestamp. This holds however the cycle ends (\<open>res\<close> is the exception that
  ends it, if any); when it ends without exception, every route was requested once,
  in order.
\<close>

theorem cycle_single_timestamp:
  assumes "poll_cycle rt ops idx w routes st = (res, st')"
  shows "reads st' = reads st + 1 \<and>
         (\<exists>es. trace st' = trace st @ ClockRead (utc_now w (reads st)) # es \<and>
               (\<forall>e\<in>set es. \<not> is_clock_read e) \<and>
               (res = None \<longrightarrow> fetched es = map fst routes)) \<and>
         (\<forall>t old. conn st t = Some old \<longrightarrow>
            (\<exists>new. conn st' t = Some (old @ new) \<and>
                   (\<forall>r\<in>set new. c_ts_utc r = utc_now w (reads st))))"
proof -
  let ?ts = "utc_now w (reads st)"
  let ?s1 = "st\<lparr> reads := reads st + 1, trace := trace st @ [ClockRead ?ts] \<rparr>"
  obtain r2 s2 tot where p: "poll_routes rt ops idx w ?ts routes ?s1 0 = (r2, s2, tot)"
    by (cases "poll_routes rt ops idx w ?ts routes ?s1 0")
  from poll_routes_facts[OF p] obtain es where f:
    "reads s2 = reads st + 1"
    "trace s2 = trace st @ ClockRead ?ts # es" "\<forall>e\<in>set es. \<not> is_clock_read e"
    "r2 = None \<longrightarrow> fetched es = map fst routes"
    "\<forall>t old. conn st t = Some old \<longrightarrow>
            (\<exists>new. conn s2 t = Some (old @ new) \<and> (\<forall>r\<in>set new. c_ts_utc r = ?ts))"
    by auto
  show ?thesis
  proof (cases r2)
    case None
    with assms p have r: "res = None"
      "st' = s2\<lparr> trace := trace s2 @ [PrintSnapshotComplete ?ts tot, Sleep (of_int (POLL_SECONDS rt))] \<rparr>"
      by (auto simp: poll_cycle_def Let_def)
    have "trace st' = trace st @ ClockRead ?ts # (es @ [PrintSnapshotComplete ?ts tot, Sleep (of_int (POLL_SECONDS rt))])"
      using r f by simp
    moreover have "\<forall>e\<in>set (es @ [PrintSnapshotComplete ?ts tot, Sleep (of_int (POLL_SECONDS rt))]). \<not> is_clock_read e"
      using f by auto
    moreover have "fetched (es @ [PrintSnapshotComplete ?ts tot, Sleep (of_int (POLL_SECONDS rt))]) = map fst routes"
      using f None by (simp add: fetched_append)
    ultimately have "\<exists>es. trace st' = trace st @ ClockRead ?ts # es \<and>
               (\<forall>e\<in>set es. \<not> is_clock_read e) \<and>
               (res = None \<longrightarrow> fetched es = map fst routes)" by blast
    with r f show ?thesis by simp
  next
    case (Some e)
    with assms p have r: "res = Some e" "st' = s2"
      by (auto simp: poll_cycle_def Let_def)
    with f show ?thesis by auto
  qed
qed

theorem cycle_single_timestamp_witness:
  "poll_cycle demo_runtime segment_ops demo_index demo_world demo_routes demo_state
     = (None, demo_done [ClockRead demo_ts] 1 [PrintSnapshotComplete demo_ts 1, Sleep 30]) \<and>
   reads (demo_done [ClockRead demo_ts] 1 [PrintSnapshotComplete demo_ts 1, Sleep 30])
     = reads demo_state + 1 \<and>
   (\<exists>es. trace (demo_done [ClockRead demo_ts] 1 [PrintSnapshotComplete demo_ts 1, Sleep 30])
           = trace demo_state @ ClockRead demo_ts # es \<and>
         (\<forall>e\<in>set es. \<not> is_clock_read e) \<and> fetched es = [''Red'', ''Brn'']) \<and>
   (\<exists>new. conn (demo_done [ClockRead demo_ts] 1 [PrintSnapshotComplete demo_ts 1, Sleep 30]) ''brn''
           = Some ([] @ new) \<and> new \<noteq> [] \<and> (\<forall>r\<in>set new. c_ts_utc r = demo_ts))"
proof -
  let ?S = "demo_done [ClockRead demo_ts] 1 [PrintSnapshotComplete demo_ts 1, Sleep 30]"
  note t = cycle_single_timestamp[OF poll_demo_cycle]
  from t have a: "reads ?S = reads demo_state + 1" by blast
  from t have b: "\<exists>es. trace ?S = trace demo_state @ ClockRead demo_ts # es \<and>
         (\<forall>e\<in>set es. \<not> is_clock_read e) \<and> fetched es = [''Red'', ''Brn'']"
    by (simp add: demo_world_def demo_state_def demo_routes_def)
  have "conn demo_state ''brn'' = Some []" by (simp add: demo_state_def)
  with t obtain new where n: "conn ?S ''brn'' = Some ([] @ new)"
    "\<forall>r\<in>set new. c_ts_utc r = utc_now demo_world (reads demo_state)" by blast
  then have "new \<noteq> []" by (auto simp: demo_done_def)
  with n have c: "\<exists>new. conn ?S ''brn'' = Some ([] @ new) \<and> new \<noteq> [] \<and> (\<forall>r\<in>set new. c_ts_utc r = demo_ts)"
    by (auto simp: demo_world_def)
  from poll_demo_cycle a b c show ?thesis by blast
qed

end
